theory Spec2Isabelle
  imports Main "HOL-Library.Word" "HOL-Library.Signed_Division"
begin

section \<open>GERawConverter.cpp: conversion of GE raw-file headers to ISMRMRD XML\<close>

text \<open>
  The development follows \<^verbatim>\<open>src/GERawConverter.cpp\<close>. The vendor SDK (Orchestra), the
  XML/XSLT engine and the \<^verbatim>\<open>XMLWriter\<close> class are not part of that file: what they return
  is input data here, and every call that can throw has an outcome that is either a failure
  or a value.
\<close>

subsection \<open>Outcomes\<close>

text \<open>
  \<^item> \<open>StdException w\<close>: a thrown object derived from \<^verbatim>\<open>std::exception\<close>, \<open>w\<close> its \<^verbatim>\<open>what()\<close>;
  \<^item> \<open>OtherException\<close>: any other thrown object (what \<^verbatim>\<open>catch (...)\<close> sees);
  \<^item> \<open>ProcessExit n\<close>: the process ended through \<^verbatim>\<open>exit(n)\<close>;
  \<^item> \<open>Undefined u\<close>: the statement has no defined result in C++ (null archive handed to the
    SDK, integer division by zero, signed overflow). No value is ever claimed for it.
\<close>

datatype undefined_behaviour = NullScanArchive | DivisionByZero | SignedOverflow

datatype failure =
    StdException string
  | OtherException
  | ProcessExit nat
  | Undefined undefined_behaviour

type_synonym 'a outcome = "failure + 'a"

definition bind_outcome :: "'a outcome \<Rightarrow> ('a \<Rightarrow> 'b outcome) \<Rightarrow> 'b outcome" where
  "bind_outcome r f = (case r of Inl e \<Rightarrow> Inl e | Inr v \<Rightarrow> f v)"

definition EXIT_FAILURE :: nat where
  "EXIT_FAILURE = 1"

subsection \<open>C++ integers\<close>

text \<open>
  \<^verbatim>\<open>int\<close> and \<^verbatim>\<open>unsigned int\<close> are 32 bits wide; an \<^verbatim>\<open>int\<close> is read with \<open>sint\<close>.
  Signed overflow and division by zero are undefined in C++; \<^verbatim>\<open>/\<close> truncates towards zero.
\<close>

type_synonym cint = "32 word"
type_synonym cuint = "32 word"

definition INT_MIN :: int where
  "INT_MIN = - (2 ^ 31)"

definition INT_MAX :: int where
  "INT_MAX = 2 ^ 31 - 1"

definition in_int_range :: "int \<Rightarrow> bool" where
  "in_int_range k \<longleftrightarrow> INT_MIN \<le> k \<and> k \<le> INT_MAX"

definition int_add :: "cint \<Rightarrow> cint \<Rightarrow> cint outcome" where
  "int_add a b =
     (if in_int_range (sint a + sint b) then Inr (a + b)
      else Inl (Undefined SignedOverflow))"

definition int_div :: "cint \<Rightarrow> cint \<Rightarrow> cint outcome" where
  "int_div a b =
     (if b = 0 then Inl (Undefined DivisionByZero)
      else if in_int_range (sint a sdiv sint b) then Inr (word_of_int (sint a sdiv sint b))
      else Inl (Undefined SignedOverflow))"

subsection \<open>XMLWriter\<close>

text \<open>
  \<^verbatim>\<open>XMLWriter.h\<close> is not in the source tree. A writer object is represented by the calls made
  on it so far, with their arguments: the name, and for \<^verbatim>\<open>formatElement\<close> the printf format
  and the argument as passed. What text the writer makes of the calls is the parameter
  \<open>getXML\<close> of the environment below.
\<close>

datatype printf_arg = IntArg cint | UIntArg cuint | StrArg string

datatype writer_call =
    StartDocument
  | StartElement string
  | EndElement
  | AddBooleanElement string bool
  | FormatElement string string printf_arg
  | EndDocument

type_synonym XMLWriter = "writer_call list"

definition XMLWriter_new :: XMLWriter where
  "XMLWriter_new = []"

definition startDocument :: "XMLWriter \<Rightarrow> XMLWriter" where
  "startDocument w = w @ [StartDocument]"

definition startElement :: "string \<Rightarrow> XMLWriter \<Rightarrow> XMLWriter" where
  "startElement name w = w @ [StartElement name]"

definition endElement :: "XMLWriter \<Rightarrow> XMLWriter" where
  "endElement w = w @ [EndElement]"

definition addBooleanElement :: "string \<Rightarrow> bool \<Rightarrow> XMLWriter \<Rightarrow> XMLWriter" where
  "addBooleanElement name b w = w @ [AddBooleanElement name b]"

definition formatElement :: "string \<Rightarrow> string \<Rightarrow> printf_arg \<Rightarrow> XMLWriter \<Rightarrow> XMLWriter" where
  "formatElement name fmt arg w = w @ [FormatElement name fmt arg]"

definition endDocument :: "XMLWriter \<Rightarrow> XMLWriter" where
  "endDocument w = w @ [EndDocument]"

text \<open>\<^verbatim>\<open>s.c_str()\<close> read by \<^verbatim>\<open>%s\<close>: the characters before the first NUL.\<close>

definition c_str :: "string \<Rightarrow> string" where
  "c_str s = takeWhile (\<lambda>c. c \<noteq> CHR 0x00) s"

subsection \<open>The raw header abstraction\<close>

text \<open>
  Each field of the records below is the outcome of the SDK call of that name on the object.
  \<open>Value<T>(name)\<close> and \<open>ValueStrict<T>(name)\<close> on a processing control are the field \<open>name\<close>.
\<close>

record series_module =
  series_UID :: string
  series_SeriesDescription :: string

record study_module =
  study_UID :: string

record patient_module =
  patient_Name :: string
  patient_ID :: string

record equipment_module =
  equipment_Manufacturer :: string

record image_module =
  image_EchoTime :: string
  image_RepetitionTime :: string

text \<open>
  \<open>SliceTable\<close> is read strictly; the table only feeds the SDK's \<^verbatim>\<open>ImageCorners\<close> and
  \<^verbatim>\<open>DicomImage\<close>, so the field keeps only whether the read succeeds.
\<close>

record processing_control =
  Is3DAcquisition :: "bool outcome"
  AssetCalibration :: "bool outcome"
  NumSlices :: "cint outcome"
  NumChannels :: "cint outcome"
  SeriesNumber :: "cint outcome"
  ExamNumber :: "cint outcome"
  CoilConfigUID :: "cuint outcome"
  SliceTable :: "unit outcome"

text \<open>The processing control of \<^verbatim>\<open>GERecon::Epi::LxControlSource\<close> (\<^verbatim>\<open>procCtrlEPI\<close>).\<close>

record epi_control =
  ExtraFramesTop :: "cint outcome"
  ExtraFramesBottom :: "cint outcome"
  AcquiredYRes :: "cint outcome"
  IntegratedReferenceScan :: "bool outcome"
  MultibandEnabled :: "bool outcome"

text \<open>
  \<^verbatim>\<open>LxDownloadData\<close>, with the objects the SDK builds from it:
  \<^item> \<open>Series_GeneralModule\<close>: \<^verbatim>\<open>DicomSeries(lxData).Series()->GeneralModule()\<close>;
  \<^item> \<open>Study_GeneralModule\<close>: \<^verbatim>\<open>series->Study()->GeneralModule()\<close>;
  \<^item> \<open>Patient_GeneralModule\<close>: \<^verbatim>\<open>study->Patient()->GeneralModule()\<close>;
  \<^item> \<open>Equipment_GeneralModule\<close>: \<^verbatim>\<open>series->Equipment()->GeneralModule()\<close>;
  \<^item> \<open>DicomImage_ImageModule\<close>: \<^verbatim>\<open>ImageCorners(...)\<close>, \<^verbatim>\<open>DicomImage(...)\<close>, \<^verbatim>\<open>ImageModule()\<close>;
  \<^item> \<open>Legacy_ProcessingControl\<close>:
    \<^verbatim>\<open>Legacy::LxControlSource(lxData)->CreateOrchestraProcessingControl()\<close>;
  \<^item> \<open>Epi_ProcessingControl\<close>:
    \<^verbatim>\<open>Epi::LxControlSource(lxData)->CreateOrchestraProcessingControl()\<close>.
\<close>

record lx_download_data =
  IsCalibration :: "bool outcome"
  IsEpi :: "bool outcome"
  Series_GeneralModule :: "series_module outcome"
  Study_GeneralModule :: "study_module outcome"
  Patient_GeneralModule :: "patient_module outcome"
  Equipment_GeneralModule :: "equipment_module outcome"
  DicomImage_ImageModule :: "image_module outcome"
  Legacy_ProcessingControl :: "processing_control outcome"
  Epi_ProcessingControl :: "epi_control outcome"

text \<open>
  A scan archive: \<open>LoadDownloadData\<close> and the control count of the storage that
  \<^verbatim>\<open>ArchiveStorage::Create\<close> makes of it. \<^verbatim>\<open>AvailableControlCount()\<close> is taken to return an
  \<^verbatim>\<open>int\<close>, as the variable it is divided into.
\<close>

record archive_storage =
  AvailableControlCount :: cint

record scan_archive =
  LoadDownloadData :: "lx_download_data outcome"
  ArchiveStorage_Create :: "archive_storage outcome"

record pfile =
  DownloadData :: lx_download_data
  Pfile_ProcessingControl :: "processing_control outcome"

text \<open>
  \<^verbatim>\<open>ArchiveStorage::Create(scanArchive_)\<close> on the member as it is: a null pointer when the
  constructor never assigned it.
\<close>

definition ArchiveStorage_Create_ptr :: "scan_archive option \<Rightarrow> archive_storage outcome" where
  "ArchiveStorage_Create_ptr p =
     (case p of None \<Rightarrow> Inl (Undefined NullScanArchive) | Some a \<Rightarrow> ArchiveStorage_Create a)"

subsection \<open>Header projection: \<^verbatim>\<open>ge_header_to_xml\<close>\<close>

text \<open>
  Lines 327 to 349, the body of \<^verbatim>\<open>if (lxData->IsEpi())\<close>. The reads of one expression
  are taken left to right.
\<close>

definition epiParameters ::
  "scan_archive option \<Rightarrow> lx_download_data \<Rightarrow> processing_control \<Rightarrow> XMLWriter
    \<Rightarrow> XMLWriter outcome" where
  "epiParameters scanArchive lxData processingControl writer =
     bind_outcome (Epi_ProcessingControl lxData) (\<lambda>procCtrlEPI.
     bind_outcome (ArchiveStorage_Create_ptr scanArchive) (\<lambda>archive_storage_ptr.
     bind_outcome (ExtraFramesTop procCtrlEPI) (\<lambda>top.
     bind_outcome (ExtraFramesBottom procCtrlEPI) (\<lambda>bottom.
     bind_outcome (int_add top bottom) (\<lambda>ref_views.
     bind_outcome (NumSlices processingControl) (\<lambda>numSlices.
     bind_outcome (int_add numSlices 1) (\<lambda>divisor.
     bind_outcome (int_div (AvailableControlCount archive_storage_ptr) divisor) (\<lambda>num_volumes.
     let writer = startElement ''epiParameters'' writer in
     bind_outcome (IntegratedReferenceScan procCtrlEPI) (\<lambda>v.
     let writer = addBooleanElement ''isEpiRefScanIntegrated'' v writer in
     bind_outcome (MultibandEnabled procCtrlEPI) (\<lambda>v.
     let writer = addBooleanElement ''MultibandEnabled'' v writer in
     bind_outcome (ExtraFramesTop procCtrlEPI) (\<lambda>v.
     let writer = formatElement ''ExtraFramesTop'' ''%d'' (IntArg v) writer in
     bind_outcome (AcquiredYRes procCtrlEPI) (\<lambda>v.
     let writer = formatElement ''AcquiredYRes'' ''%d'' (IntArg v) writer in
     bind_outcome (ExtraFramesBottom procCtrlEPI) (\<lambda>v.
     let writer = formatElement ''ExtraFramesBottom'' ''%d'' (IntArg v) writer;
         writer = formatElement ''NumRefViews'' ''%d'' (IntArg ref_views) writer;
         writer = formatElement ''num_volumes'' ''%d'' (IntArg num_volumes) writer;
         writer = endElement writer
     in Inr writer)))))))))))))"

text \<open>
  Lines 252 to 352: the state of the local \<^verbatim>\<open>XMLWriter\<close> after \<^verbatim>\<open>writer.endDocument()\<close>, or
  the exception that left the \<^verbatim>\<open>try\<close> block (both handlers log and rethrow it unchanged).
  \<open>scanArchive\<close> is the member \<^verbatim>\<open>scanArchive_\<close> of the converter.
\<close>

definition ge_header_to_xml_writer ::
  "scan_archive option \<Rightarrow> lx_download_data \<Rightarrow> processing_control \<Rightarrow> XMLWriter outcome" where
  "ge_header_to_xml_writer scanArchive lxData processingControl =
     (let writer = XMLWriter_new;
          writer = startDocument writer;
          writer = startElement ''Header'' writer in
      bind_outcome (Is3DAcquisition processingControl) (\<lambda>v.
      let writer = addBooleanElement ''is3DAcquisition'' v writer in
      bind_outcome (IsCalibration lxData) (\<lambda>v.
      let writer = addBooleanElement ''isCalibration'' v writer in
      bind_outcome (AssetCalibration processingControl) (\<lambda>v.
      let writer = addBooleanElement ''isAssetCalibration'' v writer in
      bind_outcome (NumSlices processingControl) (\<lambda>v.
      let writer = formatElement ''SliceCount'' ''%d'' (IntArg v) writer in
      bind_outcome (NumChannels processingControl) (\<lambda>v.
      let writer = formatElement ''ChannelCount'' ''%d'' (IntArg v) writer in
      bind_outcome (Series_GeneralModule lxData) (\<lambda>seriesModule.
      let writer = startElement ''Series'' writer in
      bind_outcome (SeriesNumber processingControl) (\<lambda>v.
      let writer = formatElement ''Number'' ''%d'' (IntArg v) writer;
          writer = formatElement ''UID'' ''%s'' (StrArg (c_str (series_UID seriesModule))) writer;
          writer = formatElement ''Description'' ''%s''
                     (StrArg (c_str (series_SeriesDescription seriesModule))) writer in
      bind_outcome (Study_GeneralModule lxData) (\<lambda>studyModule.
      let writer = startElement ''Study'' writer in
      bind_outcome (ExamNumber processingControl) (\<lambda>v.
      let writer = formatElement ''Number'' ''%u'' (IntArg v) writer;
          writer = formatElement ''UID'' ''%s'' (StrArg (c_str (study_UID studyModule))) writer in
      bind_outcome (Patient_GeneralModule lxData) (\<lambda>patientModule.
      let writer = startElement ''Patient'' writer;
          writer = formatElement ''Name'' ''%s'' (StrArg (c_str (patient_Name patientModule))) writer;
          writer = formatElement ''ID'' ''%s'' (StrArg (c_str (patient_ID patientModule))) writer in
      bind_outcome (Equipment_GeneralModule lxData) (\<lambda>equipmentModule.
      let writer = startElement ''Equipment'' writer;
          writer = formatElement ''Manufacturer'' ''%s''
                     (StrArg (c_str (equipment_Manufacturer equipmentModule))) writer in
      bind_outcome (CoilConfigUID processingControl) (\<lambda>v.
      let writer = formatElement ''CoilConfigUID'' ''%u'' (UIntArg v) writer in
      bind_outcome (SliceTable processingControl) (\<lambda>sliceTable.
      bind_outcome (DicomImage_ImageModule lxData) (\<lambda>imageModule.
      let writer = startElement ''Image'' writer;
          writer = formatElement ''EchoTime'' ''%s''
                     (StrArg (c_str (image_EchoTime imageModule))) writer;
          writer = formatElement ''RepetitionTime'' ''%s''
                     (StrArg (c_str (image_RepetitionTime imageModule))) writer in
      bind_outcome (IsEpi lxData) (\<lambda>isEpi.
      bind_outcome (if isEpi then epiParameters scanArchive lxData processingControl writer
                    else Inr writer) (\<lambda>writer.
      let writer = endElement writer;
          writer = endDocument writer
      in Inr writer)))))))))))))))))"

text \<open>
  How the text of \<^verbatim>\<open>writer.getXML()\<close> is read from the writer is the parameter \<open>getXML\<close>.
\<close>

definition ge_header_to_xml ::
  "(XMLWriter \<Rightarrow> string) \<Rightarrow> scan_archive option \<Rightarrow> lx_download_data \<Rightarrow> processing_control
    \<Rightarrow> string outcome" where
  "ge_header_to_xml getXML scanArchive lxData processingControl =
     bind_outcome (ge_header_to_xml_writer scanArchive lxData processingControl) (\<lambda>writer.
     Inr (getXML writer))"

text \<open>
  Reading a block of the document: the calls between the first \<^verbatim>\<open>startElement(name)\<close> and
  the \<^verbatim>\<open>endElement()\<close> that closes it.
\<close>

fun matching_end :: "nat \<Rightarrow> writer_call list \<Rightarrow> writer_call list option" where
  "matching_end d [] = None"
| "matching_end d (EndElement # cs) =
     (if d = 0 then Some [] else map_option (Cons EndElement) (matching_end (d - 1) cs))"
| "matching_end d (StartElement n # cs) =
     map_option (Cons (StartElement n)) (matching_end (Suc d) cs)"
| "matching_end d (c # cs) = map_option (Cons c) (matching_end d cs)"

fun element_body :: "string \<Rightarrow> writer_call list \<Rightarrow> writer_call list option" where
  "element_body name [] = None"
| "element_body name (c # cs) =
     (if c = StartElement name then matching_end 0 cs else element_body name cs)"

subsection \<open>The converter object\<close>

datatype raw_type = SCAN_ARCHIVE_RAW_TYPE | PFILE_RAW_TYPE

datatype SequenceConverter = GenericConverter | NIH2dfastConverter | NIHepiConverter

text \<open>
  The members of \<^verbatim>\<open>GERawConverter\<close>: a member \<^verbatim>\<open>x_\<close> is the field \<open>m_x\<close>. A smart
  pointer is an option, \<open>None\<close> when null. The logger \<^verbatim>\<open>log_\<close> and the console output are
  left out.
\<close>

record GERawConverter =
  m_psdname :: string
  m_scanArchive :: "scan_archive option"
  m_pfile :: "pfile option"
  m_lxData :: lx_download_data
  m_processingControl :: processing_control
  m_rawObjectType :: raw_type
  m_converter :: "SequenceConverter option"
  m_stylesheet :: string
  m_recon_config :: string

text \<open>The static SDK functions the constructor calls.\<close>

record sdk =
  IsArchiveFilePath :: "string \<Rightarrow> bool"
  ScanArchive_Create :: "string \<Rightarrow> scan_archive outcome"
  Pfile_Create :: "string \<Rightarrow> pfile outcome"

text \<open>
  Lines 49 to 100. \<^verbatim>\<open>!classname.compare(c)\<close> is equality with \<open>c\<close>. The members not assigned
  keep their default: a null pointer, an empty string; \<^verbatim>\<open>converter_\<close> is assigned last. The
  downcast of the download data of an archive is taken to succeed.
\<close>

definition GERawConverter_new :: "sdk \<Rightarrow> string \<Rightarrow> string \<Rightarrow> GERawConverter outcome" where
  "GERawConverter_new orchestra rawFilePath classname =
     bind_outcome
       (if IsArchiveFilePath orchestra rawFilePath then
          bind_outcome (ScanArchive_Create orchestra rawFilePath) (\<lambda>archive.
          bind_outcome (LoadDownloadData archive) (\<lambda>lxData.
          bind_outcome (Legacy_ProcessingControl lxData) (\<lambda>processingControl.
          Inr \<lparr>m_psdname = [], m_scanArchive = Some archive, m_pfile = None, m_lxData = lxData,
               m_processingControl = processingControl, m_rawObjectType = SCAN_ARCHIVE_RAW_TYPE,
               m_converter = None, m_stylesheet = [], m_recon_config = []\<rparr>)))
        else
          bind_outcome (Pfile_Create orchestra rawFilePath) (\<lambda>pf.
          bind_outcome (Pfile_ProcessingControl pf) (\<lambda>processingControl.
          Inr \<lparr>m_psdname = [], m_scanArchive = None, m_pfile = Some pf, m_lxData = DownloadData pf,
               m_processingControl = processingControl, m_rawObjectType = PFILE_RAW_TYPE,
               m_converter = None, m_stylesheet = [], m_recon_config = []\<rparr>)))
       (\<lambda>this.
          if classname = ''GenericConverter''
            then Inr (this\<lparr>m_converter := Some GenericConverter\<rparr>)
          else if classname = ''NIH2dfastConverter''
            then Inr (this\<lparr>m_converter := Some NIH2dfastConverter\<rparr>)
          else if classname = ''NIHepiConverter''
            then Inr (this\<lparr>m_converter := Some NIHepiConverter\<rparr>)
          else Inl (ProcessExit EXIT_FAILURE))"

subsection \<open>Supplying the stylesheet\<close>

text \<open>
  A \<^verbatim>\<open>std::ifstream\<close>: whether its file buffer is open, the bytes of the file, the get
  position, and the state bits. A file system is a map from paths to contents; the
  constructor of the stream takes the path as a C string.
\<close>

record ifstream =
  is_open :: bool
  filebuf :: string
  gpos :: nat
  eofbit :: bool
  failbit :: bool
  badbit :: bool

definition ifstream_open :: "(string \<rightharpoonup> string) \<Rightarrow> string \<Rightarrow> ifstream" where
  "ifstream_open fs filename =
     (case fs filename of
        None \<Rightarrow> \<lparr>is_open = False, filebuf = [], gpos = 0,
                 eofbit = False, failbit = True, badbit = False\<rparr>
      | Some bytes \<Rightarrow> \<lparr>is_open = True, filebuf = bytes, gpos = 0,
                       eofbit = False, failbit = False, badbit = False\<rparr>)"

text \<open>
  \<^verbatim>\<open>stream.seekg(0, std::ios::beg)\<close>: clears \<^verbatim>\<open>eofbit\<close>, then seeks only if \<^verbatim>\<open>fail()\<close> is
  false (neither \<^verbatim>\<open>failbit\<close> nor \<^verbatim>\<open>badbit\<close> set); a seek on a closed buffer fails.
\<close>

definition seekg_beg :: "ifstream \<Rightarrow> ifstream" where
  "seekg_beg stream =
     (let stream = stream\<lparr>eofbit := False\<rparr> in
      if failbit stream \<or> badbit stream then stream\<lparr>failbit := True\<rparr>
      else if is_open stream then stream\<lparr>gpos := 0\<rparr>
      else stream\<lparr>failbit := True\<rparr>)"

text \<open>
  The range of \<^verbatim>\<open>std::istreambuf_iterator<char>(stream)\<close> up to the end: the bytes of the
  buffer from the get position on, whatever the state bits say.
\<close>

definition istreambuf_range :: "ifstream \<Rightarrow> string" where
  "istreambuf_range stream = (if is_open stream then drop (gpos stream) (filebuf stream) else [])"

definition useStylesheetString :: "string \<Rightarrow> GERawConverter \<Rightarrow> GERawConverter" where
  "useStylesheetString sheet this = this\<lparr>m_stylesheet := sheet\<rparr>"

definition useStylesheetStream :: "ifstream \<Rightarrow> GERawConverter \<Rightarrow> GERawConverter" where
  "useStylesheetStream stream this =
     (let stream = seekg_beg stream;
          sheet = istreambuf_range stream
      in useStylesheetString sheet this)"

definition useStylesheetFilename ::
  "(string \<rightharpoonup> string) \<Rightarrow> string \<Rightarrow> GERawConverter \<Rightarrow> GERawConverter" where
  "useStylesheetFilename fs filename this =
     (let stream = ifstream_open fs (c_str filename) in useStylesheetStream stream this)"

subsection \<open>The transform: \<^verbatim>\<open>getIsmrmrdXMLHeader\<close>\<close>

text \<open>
  The libxml2/libxslt functions the method calls. They are C functions: on failure they
  return a null pointer (a negative number for \<^verbatim>\<open>xsltSaveResultToString\<close>) and report a
  diagnostic on the engine's own error channel. \<open>Inl d\<close> is such a failure with the
  diagnostic \<open>d\<close>, \<open>Inr v\<close> a result.
\<close>

record ('doc, 'sheet) xslt_engine =
  xmlParseMemory :: "string \<Rightarrow> string + 'doc"
  xsltParseStylesheetDoc :: "'doc \<Rightarrow> string + 'sheet"
  xsltApplyStylesheet :: "'sheet \<Rightarrow> 'doc \<Rightarrow> string + 'doc"
  xsltSaveResultToString :: "'doc \<Rightarrow> 'sheet \<Rightarrow> string + string"

text \<open>The calls a run of the method makes, in order.\<close>

datatype stage_call =
    Call_ge_header_to_xml
  | Call_xmlParseMemory_stylesheet
  | Call_xsltParseStylesheetDoc
  | Call_xmlParseMemory_header
  | Call_xsltApplyStylesheet
  | Call_xsltSaveResultToString

text \<open>
  \<^verbatim>\<open>catch (const std::exception& e) { throw std::runtime_error(prefix + e.what()); }\<close>:
  anything that is not a \<^verbatim>\<open>std::exception\<close> passes through.
\<close>

definition rethrow_with :: "string \<Rightarrow> failure \<Rightarrow> failure" where
  "rethrow_with prefix e = (case e of StdException w \<Rightarrow> StdException (prefix @ w) | _ \<Rightarrow> e)"

text \<open>
  Lines 129 to 216: the returned text or the exception that leaves the method, and the
  calls made. The outer handler logs and rethrows unchanged.
\<close>

definition getIsmrmrdXMLHeader ::
  "(XMLWriter \<Rightarrow> string) \<Rightarrow> ('doc, 'sheet) xslt_engine \<Rightarrow> GERawConverter
    \<Rightarrow> string outcome \<times> stage_call list" where
  "getIsmrmrdXMLHeader getXML engine this =
     (if m_stylesheet this = [] then (Inl (StdException ''No stylesheet configured.''), [])
      else
        (case bind_outcome
                (ge_header_to_xml getXML (m_scanArchive this) (m_lxData this)
                   (m_processingControl this))
                (\<lambda>h. if h = [] then Inl (StdException ''Generated GE header is empty.'')
                      else Inr h) of
          Inl e \<Rightarrow>
            (Inl (rethrow_with
                   ''Failed to generate GE header from lxData and processingControl: '' e),
             [Call_ge_header_to_xml])
        | Inr ge_raw_file_header \<Rightarrow>
        (case xmlParseMemory engine (m_stylesheet this) of
          Inl d \<Rightarrow>
            (Inl (StdException
                   ''Failed to parse stylesheet from memory: Parsed stylesheet_doc is NULL.''),
             [Call_ge_header_to_xml, Call_xmlParseMemory_stylesheet])
        | Inr stylesheet_doc \<Rightarrow>
        (case xsltParseStylesheetDoc engine stylesheet_doc of
          Inl d \<Rightarrow>
            (Inl (StdException
                   ''Failed to create shared_ptr for stylesheet: Failed to parse XSLT stylesheet.''),
             [Call_ge_header_to_xml, Call_xmlParseMemory_stylesheet,
              Call_xsltParseStylesheetDoc])
        | Inr sheet \<Rightarrow>
        (case xmlParseMemory engine ge_raw_file_header of
          Inl d \<Rightarrow>
            (Inl (StdException ''Failed to parse P-File XML: Failed to parse GE header XML.''),
             [Call_ge_header_to_xml, Call_xmlParseMemory_stylesheet,
              Call_xsltParseStylesheetDoc, Call_xmlParseMemory_header])
        | Inr pfile_doc \<Rightarrow>
        (case xsltApplyStylesheet engine sheet pfile_doc of
          Inl d \<Rightarrow>
            (Inl (StdException
                   ''Error applying stylesheet: Failed to apply XSLT stylesheet to the document.''),
             [Call_ge_header_to_xml, Call_xmlParseMemory_stylesheet,
              Call_xsltParseStylesheetDoc, Call_xmlParseMemory_header,
              Call_xsltApplyStylesheet])
        | Inr result \<Rightarrow>
        (case xsltSaveResultToString engine result sheet of
          Inl d \<Rightarrow>
            (Inl (StdException
                   ''Error saving result to string: Failed to save transformed XML to string.''),
             [Call_ge_header_to_xml, Call_xmlParseMemory_stylesheet,
              Call_xsltParseStylesheetDoc, Call_xmlParseMemory_header,
              Call_xsltApplyStylesheet, Call_xsltSaveResultToString])
        | Inr ismrmrd_header \<Rightarrow>
            (Inr ismrmrd_header,
             [Call_ge_header_to_xml, Call_xmlParseMemory_stylesheet,
              Call_xsltParseStylesheetDoc, Call_xmlParseMemory_header,
              Call_xsltApplyStylesheet, Call_xsltSaveResultToString]))))))))"

subsection \<open>Acquisitions and the remaining methods\<close>

text \<open>
  The two overloads of \<^verbatim>\<open>SequenceConverter::getAcquisitions\<close> take a scan archive or a pfile.
  The converter classes are outside this file: \<open>plugin\<close> is what the call through the pointer
  \<^verbatim>\<open>converter_\<close> computes.
\<close>

datatype raw_container =
    ScanArchivePointer "scan_archive option"
  | PfilePointer "pfile option"

definition getAcquisitions ::
  "(SequenceConverter option \<Rightarrow> raw_container \<Rightarrow> cuint \<Rightarrow> 'acq) \<Rightarrow> GERawConverter \<Rightarrow> cuint
    \<Rightarrow> 'acq" where
  "getAcquisitions plugin this view_num =
     (if m_rawObjectType this = SCAN_ARCHIVE_RAW_TYPE
      then plugin (m_converter this) (ScanArchivePointer (m_scanArchive this)) view_num
      else plugin (m_converter this) (PfilePointer (m_pfile this)) view_num)"

definition getReconConfigName :: "GERawConverter \<Rightarrow> string" where
  "getReconConfigName this = m_recon_config this"

text \<open>
  A call of a public method, and the converter after it: only the three stylesheet
  methods assign a member.
\<close>

datatype method_call =
    UseStylesheetFilename string
  | UseStylesheetStream ifstream
  | UseStylesheetString string
  | GetIsmrmrdXMLHeader
  | GetAcquisitions cuint
  | GetReconConfigName

fun after_call :: "(string \<rightharpoonup> string) \<Rightarrow> GERawConverter \<Rightarrow> method_call \<Rightarrow> GERawConverter" where
  "after_call fs this (UseStylesheetFilename filename) = useStylesheetFilename fs filename this"
| "after_call fs this (UseStylesheetStream stream) = useStylesheetStream stream this"
| "after_call fs this (UseStylesheetString sheet) = useStylesheetString sheet this"
| "after_call fs this GetIsmrmrdXMLHeader = this"
| "after_call fs this (GetAcquisitions view_num) = this"
| "after_call fs this GetReconConfigName = this"

definition after_calls ::
  "(string \<rightharpoonup> string) \<Rightarrow> GERawConverter \<Rightarrow> method_call list \<Rightarrow> GERawConverter" where
  "after_calls fs this cs = foldl (after_call fs) this cs"

text \<open>
  The object that the constructor has built when it returns: of an archive that opened
  (lines 58 to 64), or of a P-file that opened (lines 68 to 75), with the strategy assigned
  to \<^verbatim>\<open>converter_\<close>.
\<close>

definition archive_converter ::
  "scan_archive \<Rightarrow> lx_download_data \<Rightarrow> processing_control \<Rightarrow> SequenceConverter
    \<Rightarrow> GERawConverter" where
  "archive_converter archive lxData processingControl strategy =
     \<lparr>m_psdname = [], m_scanArchive = Some archive, m_pfile = None, m_lxData = lxData,
      m_processingControl = processingControl, m_rawObjectType = SCAN_ARCHIVE_RAW_TYPE,
      m_converter = Some strategy, m_stylesheet = [], m_recon_config = []\<rparr>"

definition pfile_converter :: "pfile \<Rightarrow> processing_control \<Rightarrow> SequenceConverter \<Rightarrow> GERawConverter" where
  "pfile_converter pf processingControl strategy =
     \<lparr>m_psdname = [], m_scanArchive = None, m_pfile = Some pf, m_lxData = DownloadData pf,
      m_processingControl = processingControl, m_rawObjectType = PFILE_RAW_TYPE,
      m_converter = Some strategy, m_stylesheet = [], m_recon_config = []\<rparr>"

text \<open>
  A client of the class: it constructs the converter, then calls public methods on it.
  When the constructor does not return, there is no object and no call is made. The result
  is the sequence of calls that all runs of \<^verbatim>\<open>getIsmrmrdXMLHeader\<close> made.
\<close>

fun session_stage_calls ::
  "(XMLWriter \<Rightarrow> string) \<Rightarrow> ('doc, 'sheet) xslt_engine \<Rightarrow> (string \<rightharpoonup> string) \<Rightarrow> GERawConverter
    \<Rightarrow> method_call list \<Rightarrow> stage_call list" where
  "session_stage_calls getXML engine fs this [] = []"
| "session_stage_calls getXML engine fs this (c # cs) =
     (if c = GetIsmrmrdXMLHeader then snd (getIsmrmrdXMLHeader getXML engine this) else [])
     @ session_stage_calls getXML engine fs (after_call fs this c) cs"

definition client_stage_calls ::
  "sdk \<Rightarrow> (XMLWriter \<Rightarrow> string) \<Rightarrow> ('doc, 'sheet) xslt_engine \<Rightarrow> (string \<rightharpoonup> string)
    \<Rightarrow> string \<Rightarrow> string \<Rightarrow> method_call list \<Rightarrow> stage_call list" where
  "client_stage_calls orchestra getXML engine fs rawFilePath classname cs =
     (case GERawConverter_new orchestra rawFilePath classname of
        Inl e \<Rightarrow> []
      | Inr this \<Rightarrow> session_stage_calls getXML engine fs this cs)"

subsection \<open>Reading documents and failures\<close>

text \<open>The elements of a given name that carry a value.\<close>

fun element_name :: "writer_call \<Rightarrow> string option" where
  "element_name (AddBooleanElement n b) = Some n"
| "element_name (FormatElement n fmt arg) = Some n"
| "element_name c = None"

definition elements_named :: "string \<Rightarrow> writer_call list \<Rightarrow> writer_call list" where
  "elements_named name w = filter (\<lambda>c. element_name c = Some name) w"

text \<open>Whether a message mentions a name: the name occurs in it as a contiguous substring.\<close>

fun mentions :: "string \<Rightarrow> string \<Rightarrow> bool" where
  "mentions name [] = (name = [])"
| "mentions name (c # cs) = (take (length name) (c # cs) = name \<or> mentions name cs)"

text \<open>The failure of a read, if it failed.\<close>

definition thrown :: "'a outcome \<Rightarrow> failure set" where
  "thrown r = (case r of Inl e \<Rightarrow> {e} | Inr v \<Rightarrow> {})"

text \<open>
  The failures of the reads that \<^verbatim>\<open>ge_header_to_xml\<close> performs on a header: those of lines
  261 to 327 always, those of the EPI block when \<^verbatim>\<open>IsEpi()\<close> returned true.
\<close>

definition header_reads_thrown :: "lx_download_data \<Rightarrow> processing_control \<Rightarrow> failure set" where
  "header_reads_thrown lxData processingControl =
     thrown (Is3DAcquisition processingControl) \<union> thrown (IsCalibration lxData) \<union>
     thrown (AssetCalibration processingControl) \<union> thrown (NumSlices processingControl) \<union>
     thrown (NumChannels processingControl) \<union> thrown (Series_GeneralModule lxData) \<union>
     thrown (SeriesNumber processingControl) \<union> thrown (Study_GeneralModule lxData) \<union>
     thrown (ExamNumber processingControl) \<union> thrown (Patient_GeneralModule lxData) \<union>
     thrown (Equipment_GeneralModule lxData) \<union> thrown (CoilConfigUID processingControl) \<union>
     thrown (SliceTable processingControl) \<union> thrown (DicomImage_ImageModule lxData) \<union>
     thrown (IsEpi lxData)"

definition epi_reads_thrown :: "scan_archive option \<Rightarrow> lx_download_data \<Rightarrow> failure set" where
  "epi_reads_thrown scanArchive lxData =
     (if IsEpi lxData = Inr True then
        thrown (Epi_ProcessingControl lxData) \<union> thrown (ArchiveStorage_Create_ptr scanArchive) \<union>
        (case Epi_ProcessingControl lxData of
           Inl e \<Rightarrow> {}
         | Inr procCtrlEPI \<Rightarrow>
             thrown (ExtraFramesTop procCtrlEPI) \<union> thrown (ExtraFramesBottom procCtrlEPI) \<union>
             thrown (IntegratedReferenceScan procCtrlEPI) \<union> thrown (MultibandEnabled procCtrlEPI) \<union>
             thrown (AcquiredYRes procCtrlEPI))
      else {})"

text \<open>
  Two headers hold the same values for the projection: every call that
  \<^verbatim>\<open>ge_header_to_xml\<close> makes has the same outcome on both. What the projection never asks for
  may differ (the download data of the archive, the legacy processing control of the
  download data), and so may the EPI processing control and the archive storage unless
  \<^verbatim>\<open>IsEpi()\<close> returns true.
\<close>

definition same_header_values ::
  "scan_archive option \<Rightarrow> lx_download_data \<Rightarrow> processing_control
    \<Rightarrow> scan_archive option \<Rightarrow> lx_download_data \<Rightarrow> processing_control \<Rightarrow> bool" where
  "same_header_values scanArchive lxData pc scanArchive' lxData' pc' \<longleftrightarrow>
     Is3DAcquisition pc = Is3DAcquisition pc' \<and> IsCalibration lxData = IsCalibration lxData' \<and>
     AssetCalibration pc = AssetCalibration pc' \<and> NumSlices pc = NumSlices pc' \<and>
     NumChannels pc = NumChannels pc' \<and>
     Series_GeneralModule lxData = Series_GeneralModule lxData' \<and>
     SeriesNumber pc = SeriesNumber pc' \<and>
     Study_GeneralModule lxData = Study_GeneralModule lxData' \<and>
     ExamNumber pc = ExamNumber pc' \<and>
     Patient_GeneralModule lxData = Patient_GeneralModule lxData' \<and>
     Equipment_GeneralModule lxData = Equipment_GeneralModule lxData' \<and>
     CoilConfigUID pc = CoilConfigUID pc' \<and> SliceTable pc = SliceTable pc' \<and>
     DicomImage_ImageModule lxData = DicomImage_ImageModule lxData' \<and>
     IsEpi lxData = IsEpi lxData' \<and>
     (IsEpi lxData = Inr True \<longrightarrow>
        Epi_ProcessingControl lxData = Epi_ProcessingControl lxData' \<and>
        ArchiveStorage_Create_ptr scanArchive = ArchiveStorage_Create_ptr scanArchive')"

text \<open>
  The run of \<^verbatim>\<open>ge_header_to_xml\<close> gets as far as line 333, the call of
  \<^verbatim>\<open>ArchiveStorage::Create(scanArchive_)\<close>: every read before it returned, \<^verbatim>\<open>IsEpi()\<close> with
  true.
\<close>

definition reaches_ArchiveStorage_Create :: "lx_download_data \<Rightarrow> processing_control \<Rightarrow> bool" where
  "reaches_ArchiveStorage_Create lxData processingControl \<longleftrightarrow>
     header_reads_thrown lxData processingControl = {} \<and> IsEpi lxData = Inr True \<and>
     thrown (Epi_ProcessingControl lxData) = {}"

text \<open>
  The calls of lines 256 to 324, for given values of the reads: what the writer holds when
  \<^verbatim>\<open>IsEpi()\<close> is asked.
\<close>

definition header_fixed_part ::
  "bool \<Rightarrow> bool \<Rightarrow> bool \<Rightarrow> cint \<Rightarrow> cint \<Rightarrow> cint \<Rightarrow> cint \<Rightarrow> cuint \<Rightarrow> series_module \<Rightarrow> study_module
    \<Rightarrow> patient_module \<Rightarrow> equipment_module \<Rightarrow> image_module \<Rightarrow> writer_call list" where
  "header_fixed_part is3d cal asset ns nc sn en coil seriesModule studyModule patientModule
     equipmentModule imageModule =
       [StartDocument, StartElement ''Header'',
        AddBooleanElement ''is3DAcquisition'' is3d,
        AddBooleanElement ''isCalibration'' cal,
        AddBooleanElement ''isAssetCalibration'' asset,
        FormatElement ''SliceCount'' ''%d'' (IntArg ns),
        FormatElement ''ChannelCount'' ''%d'' (IntArg nc),
        StartElement ''Series'',
        FormatElement ''Number'' ''%d'' (IntArg sn),
        FormatElement ''UID'' ''%s'' (StrArg (c_str (series_UID seriesModule))),
        FormatElement ''Description'' ''%s''
          (StrArg (c_str (series_SeriesDescription seriesModule))),
        StartElement ''Study'',
        FormatElement ''Number'' ''%u'' (IntArg en),
        FormatElement ''UID'' ''%s'' (StrArg (c_str (study_UID studyModule))),
        StartElement ''Patient'',
        FormatElement ''Name'' ''%s'' (StrArg (c_str (patient_Name patientModule))),
        FormatElement ''ID'' ''%s'' (StrArg (c_str (patient_ID patientModule))),
        StartElement ''Equipment'',
        FormatElement ''Manufacturer'' ''%s''
          (StrArg (c_str (equipment_Manufacturer equipmentModule))),
        FormatElement ''CoilConfigUID'' ''%u'' (UIntArg coil),
        StartElement ''Image'',
        FormatElement ''EchoTime'' ''%s'' (StrArg (c_str (image_EchoTime imageModule))),
        FormatElement ''RepetitionTime'' ''%s''
          (StrArg (c_str (image_RepetitionTime imageModule)))]"

subsection \<open>An EPI scan\<close>

text \<open>
  A header as in the specification's end-to-end scenario: an EPI acquisition of 29 slices
  with two extra frames on top, one at the bottom and 64 acquired lines, in an archive of 300
  control packets.
\<close>

definition example_processingControl :: processing_control where
  "example_processingControl =
     \<lparr>Is3DAcquisition = Inr False, AssetCalibration = Inr False, NumSlices = Inr 29,
      NumChannels = Inr 8, SeriesNumber = Inr 4, ExamNumber = Inr 1234, CoilConfigUID = Inr 77,
      SliceTable = Inr ()\<rparr>"

definition example_procCtrlEPI :: epi_control where
  "example_procCtrlEPI =
     \<lparr>ExtraFramesTop = Inr 2, ExtraFramesBottom = Inr 1, AcquiredYRes = Inr 64,
      IntegratedReferenceScan = Inr True, MultibandEnabled = Inr False\<rparr>"

definition example_lxData :: lx_download_data where
  "example_lxData =
     \<lparr>IsCalibration = Inr False, IsEpi = Inr True,
      Series_GeneralModule = Inr \<lparr>series_UID = ''1.2.3'', series_SeriesDescription = ''epi2''\<rparr>,
      Study_GeneralModule = Inr \<lparr>study_UID = ''1.2''\<rparr>,
      Patient_GeneralModule = Inr \<lparr>patient_Name = ''P'', patient_ID = ''7''\<rparr>,
      Equipment_GeneralModule = Inr \<lparr>equipment_Manufacturer = ''GE''\<rparr>,
      DicomImage_ImageModule = Inr \<lparr>image_EchoTime = ''30'', image_RepetitionTime = ''2000''\<rparr>,
      Legacy_ProcessingControl = Inr example_processingControl,
      Epi_ProcessingControl = Inr example_procCtrlEPI\<rparr>"

definition example_archive :: scan_archive where
  "example_archive =
     \<lparr>LoadDownloadData = Inr example_lxData,
      ArchiveStorage_Create = Inr \<lparr>AvailableControlCount = 300\<rparr>\<rparr>"

definition example_pfile :: pfile where
  "example_pfile =
     \<lparr>DownloadData = example_lxData, Pfile_ProcessingControl = Inr example_processingControl\<rparr>"

text \<open>An SDK that takes the path \<^verbatim>\<open>scan.h5\<close> for an archive and every other path for a P-file.\<close>

definition example_orchestra :: sdk where
  "example_orchestra =
     \<lparr>IsArchiveFilePath = (\<lambda>path. path = ''scan.h5''),
      ScanArchive_Create = (\<lambda>path. Inr example_archive),
      Pfile_Create = (\<lambda>path. Inr example_pfile)\<rparr>"

text \<open>The calls that the projection of the example makes on its writer.\<close>

definition example_document :: XMLWriter where
  "example_document =
     [StartDocument, StartElement ''Header'',
      AddBooleanElement ''is3DAcquisition'' False,
      AddBooleanElement ''isCalibration'' False,
      AddBooleanElement ''isAssetCalibration'' False,
      FormatElement ''SliceCount'' ''%d'' (IntArg 29),
      FormatElement ''ChannelCount'' ''%d'' (IntArg 8),
      StartElement ''Series'',
      FormatElement ''Number'' ''%d'' (IntArg 4),
      FormatElement ''UID'' ''%s'' (StrArg ''1.2.3''),
      FormatElement ''Description'' ''%s'' (StrArg ''epi2''),
      StartElement ''Study'',
      FormatElement ''Number'' ''%u'' (IntArg 1234),
      FormatElement ''UID'' ''%s'' (StrArg ''1.2''),
      StartElement ''Patient'',
      FormatElement ''Name'' ''%s'' (StrArg ''P''),
      FormatElement ''ID'' ''%s'' (StrArg ''7''),
      StartElement ''Equipment'',
      FormatElement ''Manufacturer'' ''%s'' (StrArg ''GE''),
      FormatElement ''CoilConfigUID'' ''%u'' (UIntArg 77),
      StartElement ''Image'',
      FormatElement ''EchoTime'' ''%s'' (StrArg ''30''),
      FormatElement ''RepetitionTime'' ''%s'' (StrArg ''2000''),
      StartElement ''epiParameters'',
      AddBooleanElement ''isEpiRefScanIntegrated'' True,
      AddBooleanElement ''MultibandEnabled'' False,
      FormatElement ''ExtraFramesTop'' ''%d'' (IntArg 2),
      FormatElement ''AcquiredYRes'' ''%d'' (IntArg 64),
      FormatElement ''ExtraFramesBottom'' ''%d'' (IntArg 1),
      FormatElement ''NumRefViews'' ''%d'' (IntArg 3),
      FormatElement ''num_volumes'' ''%d'' (IntArg 10),
      EndElement,
      EndElement,
      EndDocument]"

text \<open>
  The converter that the constructor makes of the example archive for the class name
  \<^verbatim>\<open>NIHepiConverter\<close>, after a stylesheet was supplied.
\<close>

definition example_converter :: GERawConverter where
  "example_converter =
     \<lparr>m_psdname = [], m_scanArchive = Some example_archive, m_pfile = None,
      m_lxData = example_lxData, m_processingControl = example_processingControl,
      m_rawObjectType = SCAN_ARCHIVE_RAW_TYPE, m_converter = Some NIHepiConverter,
      m_stylesheet = ''<xsl:stylesheet/>'', m_recon_config = []\<rparr>"

text \<open>A writer text that lists the elements opened, and an engine on texts.\<close>

definition example_getXML :: "XMLWriter \<Rightarrow> string" where
  "example_getXML w =
     concat (map (\<lambda>c. case c of StartElement n \<Rightarrow> ''<'' @ n @ ''>'' | _ \<Rightarrow> []) w)"

definition example_engine :: "(string, string) xslt_engine" where
  "example_engine =
     \<lparr>xmlParseMemory = (\<lambda>text. if take 1 text = ''<'' then Inr text
                                else Inl ''Document is empty''),
      xsltParseStylesheetDoc = (\<lambda>doc. Inr doc),
      xsltApplyStylesheet = (\<lambda>sheet doc. Inr doc),
      xsltSaveResultToString = (\<lambda>doc sheet. Inr doc)\<rparr>"

text \<open>
  The same header with a strict read that fails inside the SDK: the message is the one of
  \<^verbatim>\<open>boost::bad_any_cast\<close>.
\<close>

definition example_bad_processingControl :: processing_control where
  "example_bad_processingControl =
     example_processingControl
       \<lparr>NumSlices := Inl (StdException
          ''boost::bad_any_cast: failed conversion using boost::any_cast'')\<rparr>"


text \<open>
  The same scan in another archive object: its download data cannot be loaded again and
  has no legacy processing control, which the projection never asks for.
\<close>

definition example_other_lxData :: lx_download_data where
  "example_other_lxData = example_lxData\<lparr>Legacy_ProcessingControl := Inl OtherException\<rparr>"

definition example_other_archive :: scan_archive where
  "example_other_archive = example_archive\<lparr>LoadDownloadData := Inl OtherException\<rparr>"

section \<open>Properties\<close>

subsection \<open>Outcomes and integers\<close>

lemma bind_outcome_InrE:
  assumes "bind_outcome r f = Inr y"
  obtains v where "r = Inr v" and "f v = Inr y"
  using assms by (cases r) (simp_all add: bind_outcome_def)

lemma bind_outcome_InlE:
  assumes "bind_outcome r f = Inl e"
  obtains "r = Inl e" | v where "r = Inr v" and "f v = Inl e"
  using assms by (cases r) (simp_all add: bind_outcome_def)

lemma bind_outcome_Inr_iff:
  "bind_outcome r f = Inr y \<longleftrightarrow> (\<exists>v. r = Inr v \<and> f v = Inr y)"
  by (cases r) (simp_all add: bind_outcome_def)

lemma sint_word_of_int_in_range:
  "in_int_range k \<Longrightarrow> sint (word_of_int k :: cint) = k"
  by (simp add: in_int_range_def INT_MIN_def INT_MAX_def signed_of_int
      signed_take_bit_int_eq_self)

lemma int_add_Inr_iff:
  "int_add a b = Inr c \<longleftrightarrow> in_int_range (sint a + sint b) \<and> c = a + b"
  by (auto simp: int_add_def)

lemma sint_int_add:
  assumes "int_add a b = Inr c"
  shows "sint c = sint a + sint b"
proof -
  from assms have r: "in_int_range (sint a + sint b)" and c: "c = a + b"
    by (simp_all add: int_add_Inr_iff)
  have "c = word_of_int (sint a + sint b)"
    by (simp add: c)
  with r show ?thesis
    by (simp only: sint_word_of_int_in_range)
qed

lemma int_div_Inr_iff:
  "int_div a b = Inr c \<longleftrightarrow>
     b \<noteq> 0 \<and> in_int_range (sint a sdiv sint b) \<and> c = word_of_int (sint a sdiv sint b)"
  by (auto simp: int_div_def)

lemma sint_int_div:
  "int_div a b = Inr c \<Longrightarrow> sint c = sint a sdiv sint b"
  by (simp add: int_div_Inr_iff sint_word_of_int_in_range)

lemma int_add_29_1: "int_add 29 1 = Inr c \<Longrightarrow> c = 30"
  by (simp add: int_add_Inr_iff)

lemma int_div_300_30: "int_div 300 30 = Inr c \<Longrightarrow> c = 10"
  by (simp add: int_div_Inr_iff signed_divide_int_def)

lemma int_add_2_1: "int_add 2 1 = Inr c \<Longrightarrow> c = 3"
  by (simp add: int_add_Inr_iff)

subsection \<open>A projection that returns\<close>

lemmas writer_defs = XMLWriter_new_def startDocument_def startElement_def endElement_def
  addBooleanElement_def formatElement_def endDocument_def

lemmas example_defs = example_processingControl_def example_procCtrlEPI_def example_lxData_def
  example_archive_def example_pfile_def example_orchestra_def

lemma ArchiveStorage_Create_ptr_Inr_iff:
  "ArchiveStorage_Create_ptr p = Inr st \<longleftrightarrow> (\<exists>a. p = Some a \<and> ArchiveStorage_Create a = Inr st)"
  by (cases p) (simp_all add: ArchiveStorage_Create_ptr_def)

text \<open>When the EPI block returns, every read of it returned, and the block is the one below.\<close>

lemma epiParameters_Inr_iff:
  "epiParameters scanArchive lxData pc w = Inr w' \<longleftrightarrow>
     (\<exists>ctrl archive storage top bottom ref_views ns divisor nv yres irs mb.
        Epi_ProcessingControl lxData = Inr ctrl \<and> scanArchive = Some archive \<and>
        ArchiveStorage_Create archive = Inr storage \<and>
        ExtraFramesTop ctrl = Inr top \<and> ExtraFramesBottom ctrl = Inr bottom \<and>
        int_add top bottom = Inr ref_views \<and>
        NumSlices pc = Inr ns \<and> int_add ns 1 = Inr divisor \<and>
        int_div (AvailableControlCount storage) divisor = Inr nv \<and>
        IntegratedReferenceScan ctrl = Inr irs \<and> MultibandEnabled ctrl = Inr mb \<and>
        AcquiredYRes ctrl = Inr yres \<and>
        w' = w @ [StartElement ''epiParameters'',
                  AddBooleanElement ''isEpiRefScanIntegrated'' irs,
                  AddBooleanElement ''MultibandEnabled'' mb,
                  FormatElement ''ExtraFramesTop'' ''%d'' (IntArg top),
                  FormatElement ''AcquiredYRes'' ''%d'' (IntArg yres),
                  FormatElement ''ExtraFramesBottom'' ''%d'' (IntArg bottom),
                  FormatElement ''NumRefViews'' ''%d'' (IntArg ref_views),
                  FormatElement ''num_volumes'' ''%d'' (IntArg nv),
                  EndElement])"
  unfolding epiParameters_def Let_def writer_defs
  by (auto simp add: bind_outcome_Inr_iff ArchiveStorage_Create_ptr_Inr_iff)

text \<open>When the projection returns, every read of lines 261 to 327 returned.\<close>

lemma ge_header_to_xml_writer_InrD:
  assumes "ge_header_to_xml_writer scanArchive lxData pc = Inr w"
  shows "\<exists>is3d cal asset ns nc sn en coil seriesModule studyModule patientModule equipmentModule
         imageModule isEpi w0.
        Is3DAcquisition pc = Inr is3d \<and> IsCalibration lxData = Inr cal \<and>
        AssetCalibration pc = Inr asset \<and> NumSlices pc = Inr ns \<and> NumChannels pc = Inr nc \<and>
        Series_GeneralModule lxData = Inr seriesModule \<and> SeriesNumber pc = Inr sn \<and>
        Study_GeneralModule lxData = Inr studyModule \<and> ExamNumber pc = Inr en \<and>
        Patient_GeneralModule lxData = Inr patientModule \<and>
        Equipment_GeneralModule lxData = Inr equipmentModule \<and>
        CoilConfigUID pc = Inr coil \<and> SliceTable pc = Inr () \<and>
        DicomImage_ImageModule lxData = Inr imageModule \<and> IsEpi lxData = Inr isEpi \<and>
        (if isEpi then epiParameters scanArchive lxData pc
            (header_fixed_part is3d cal asset ns nc sn en coil seriesModule studyModule
               patientModule equipmentModule imageModule) = Inr w0
         else w0 = header_fixed_part is3d cal asset ns nc sn en coil seriesModule studyModule
               patientModule equipmentModule imageModule) \<and>
        w = w0 @ [EndElement, EndDocument]"
  using assms
  unfolding ge_header_to_xml_writer_def Let_def writer_defs header_fixed_part_def
  by (elim bind_outcome_InrE) (auto split: if_splits)

lemma example_projection:
  "ge_header_to_xml_writer (Some example_archive) example_lxData example_processingControl
     = Inr example_document"
  by (simp add: ge_header_to_xml_writer_def epiParameters_def example_defs example_document_def
      writer_defs bind_outcome_def ArchiveStorage_Create_ptr_def c_str_def int_add_def int_div_def
      in_int_range_def INT_MIN_def INT_MAX_def signed_divide_int_def)

lemma num_volumes_not_in_fixed_part:
  "elements_named ''num_volumes'' (header_fixed_part is3d cal asset ns nc sn en coil
       seriesModule studyModule patientModule equipmentModule imageModule) = []"
  by (simp add: elements_named_def header_fixed_part_def)

subsection \<open>The volume count\<close>

text \<open>
  C1. In the EPI path of the projection the volume count is the available control count of
  the archive divided by \<open>NumSlices + 1\<close>, the quotient truncated towards zero (\<open>sdiv\<close> on the
  integers), and it is the one \<open>num_volumes\<close> element of the document, written with \<^verbatim>\<open>%d\<close>.
  With 300 control packets and 29 slices the element holds 10.
\<close>

theorem num_volumes_formula:
  assumes "ge_header_to_xml_writer scanArchive lxData processingControl = Inr w"
    and "IsEpi lxData = Inr True"
  shows "\<exists>archive storage numSlices num_volumes.
           scanArchive = Some archive \<and> ArchiveStorage_Create archive = Inr storage \<and>
           NumSlices processingControl = Inr numSlices \<and>
           elements_named ''num_volumes'' w
             = [FormatElement ''num_volumes'' ''%d'' (IntArg num_volumes)] \<and>
           sint num_volumes = sint (AvailableControlCount storage) sdiv (sint numSlices + 1) \<and>
           (AvailableControlCount storage = 300 \<and> numSlices = 29 \<longrightarrow> num_volumes = 10)"
proof -
  from ge_header_to_xml_writer_InrD [OF assms(1)] assms(2)
  obtain is3d cal asset ns nc sn en coil seriesModule studyModule patientModule equipmentModule
      imageModule w0
    where ns: "NumSlices processingControl = Inr ns"
      and epi: "epiParameters scanArchive lxData processingControl
            (header_fixed_part is3d cal asset ns nc sn en coil seriesModule studyModule
               patientModule equipmentModule imageModule) = Inr w0"
      and w: "w = w0 @ [EndElement, EndDocument]"
    by auto
  from epi ns obtain archive storage divisor nv irs mb top yres bottom ref_views
    where archive: "scanArchive = Some archive" "ArchiveStorage_Create archive = Inr storage"
      and divisor: "int_add ns 1 = Inr divisor"
      and nv: "int_div (AvailableControlCount storage) divisor = Inr nv"
      and w0: "w0 = header_fixed_part is3d cal asset ns nc sn en coil seriesModule studyModule
                 patientModule equipmentModule imageModule @
               [StartElement ''epiParameters'',
                AddBooleanElement ''isEpiRefScanIntegrated'' irs,
                AddBooleanElement ''MultibandEnabled'' mb,
                FormatElement ''ExtraFramesTop'' ''%d'' (IntArg top),
                FormatElement ''AcquiredYRes'' ''%d'' (IntArg yres),
                FormatElement ''ExtraFramesBottom'' ''%d'' (IntArg bottom),
                FormatElement ''NumRefViews'' ''%d'' (IntArg ref_views),
                FormatElement ''num_volumes'' ''%d'' (IntArg nv),
                EndElement]"
    unfolding epiParameters_Inr_iff by auto
  have named: "elements_named ''num_volumes'' w
                 = [FormatElement ''num_volumes'' ''%d'' (IntArg nv)]"
    using num_volumes_not_in_fixed_part
    by (simp add: w w0 elements_named_def)
  have "sint divisor = sint ns + 1"
    using sint_int_add [OF divisor] by simp
  then have formula: "sint nv = sint (AvailableControlCount storage) sdiv (sint ns + 1)"
    using sint_int_div [OF nv] by simp
  have "nv = 10" if "AvailableControlCount storage = 300" and "ns = 29"
  proof -
    from divisor that have "divisor = 30" by (simp add: int_add_29_1)
    with nv that show ?thesis by (simp add: int_div_300_30)
  qed
  with archive ns named formula show ?thesis
    by blast
qed

theorem num_volumes_formula_witness:
  "ge_header_to_xml_writer (Some example_archive) example_lxData example_processingControl
     = Inr example_document \<and>
   IsEpi example_lxData = Inr True \<and>
   elements_named ''num_volumes'' example_document
     = [FormatElement ''num_volumes'' ''%d'' (IntArg 10)]"
proof -
  have epi: "IsEpi example_lxData = Inr True"
    by (simp add: example_lxData_def)
  from num_volumes_formula [OF example_projection epi]
  have "elements_named ''num_volumes'' example_document
          = [FormatElement ''num_volumes'' ''%d'' (IntArg 10)]"
    by (auto simp add: example_archive_def example_processingControl_def)
  with example_projection epi show ?thesis
    by simp
qed

lemma element_body_not_epi:
  "element_body ''epiParameters''
     (header_fixed_part is3d cal asset ns nc sn en coil seriesModule studyModule patientModule
        equipmentModule imageModule @ [EndElement, EndDocument]) = None"
  by (simp add: header_fixed_part_def)

text \<open>
  C2. A document that the projection returns has an \<open>epiParameters\<close> block exactly when
  \<^verbatim>\<open>IsEpi()\<close> returned true. The block then holds, in this order, the integrated reference
  scan flag, the multiband flag, \<open>ExtraFramesTop\<close>, \<open>AcquiredYRes\<close>, \<open>ExtraFramesBottom\<close>,
  \<open>NumRefViews\<close> and \<open>num_volumes\<close>, each with the value read from the EPI processing control,
  \<open>NumRefViews\<close> being the integer sum of the two extra frame counts: 3 for 2 and 1.
\<close>

theorem epiParameters_block:
  assumes "ge_header_to_xml_writer scanArchive lxData processingControl = Inr w"
  shows "(element_body ''epiParameters'' w \<noteq> None) = (IsEpi lxData = Inr True) \<and>
         (IsEpi lxData = Inr True \<longrightarrow>
            (\<exists>procCtrlEPI top bottom yres irs mb ref_views num_volumes.
               Epi_ProcessingControl lxData = Inr procCtrlEPI \<and>
               ExtraFramesTop procCtrlEPI = Inr top \<and>
               ExtraFramesBottom procCtrlEPI = Inr bottom \<and>
               AcquiredYRes procCtrlEPI = Inr yres \<and>
               IntegratedReferenceScan procCtrlEPI = Inr irs \<and>
               MultibandEnabled procCtrlEPI = Inr mb \<and>
               element_body ''epiParameters'' w =
                 Some [AddBooleanElement ''isEpiRefScanIntegrated'' irs,
                       AddBooleanElement ''MultibandEnabled'' mb,
                       FormatElement ''ExtraFramesTop'' ''%d'' (IntArg top),
                       FormatElement ''AcquiredYRes'' ''%d'' (IntArg yres),
                       FormatElement ''ExtraFramesBottom'' ''%d'' (IntArg bottom),
                       FormatElement ''NumRefViews'' ''%d'' (IntArg ref_views),
                       FormatElement ''num_volumes'' ''%d'' (IntArg num_volumes)] \<and>
               sint ref_views = sint top + sint bottom \<and>
               (top = 2 \<and> bottom = 1 \<longrightarrow> ref_views = 3)))"
proof -
  from ge_header_to_xml_writer_InrD [OF assms]
  obtain is3d cal asset ns nc sn en coil seriesModule studyModule patientModule equipmentModule
      imageModule isEpi w0
    where isEpi: "IsEpi lxData = Inr isEpi"
      and w0: "if isEpi then epiParameters scanArchive lxData processingControl
            (header_fixed_part is3d cal asset ns nc sn en coil seriesModule studyModule
               patientModule equipmentModule imageModule) = Inr w0
         else w0 = header_fixed_part is3d cal asset ns nc sn en coil seriesModule studyModule
               patientModule equipmentModule imageModule"
      and w: "w = w0 @ [EndElement, EndDocument]"
    by blast
  show ?thesis
  proof (cases isEpi)
    case False
    with isEpi w0 w show ?thesis
      by (simp add: element_body_not_epi)
  next
    case True
    with w0 obtain ctrl top bottom ref_views yres irs mb nv
      where reads: "Epi_ProcessingControl lxData = Inr ctrl"
          "ExtraFramesTop ctrl = Inr top" "ExtraFramesBottom ctrl = Inr bottom"
          "AcquiredYRes ctrl = Inr yres" "IntegratedReferenceScan ctrl = Inr irs"
          "MultibandEnabled ctrl = Inr mb"
        and sum: "int_add top bottom = Inr ref_views"
        and w0': "w0 = header_fixed_part is3d cal asset ns nc sn en coil seriesModule
                   studyModule patientModule equipmentModule imageModule @
                 [StartElement ''epiParameters'',
                  AddBooleanElement ''isEpiRefScanIntegrated'' irs,
                  AddBooleanElement ''MultibandEnabled'' mb,
                  FormatElement ''ExtraFramesTop'' ''%d'' (IntArg top),
                  FormatElement ''AcquiredYRes'' ''%d'' (IntArg yres),
                  FormatElement ''ExtraFramesBottom'' ''%d'' (IntArg bottom),
                  FormatElement ''NumRefViews'' ''%d'' (IntArg ref_views),
                  FormatElement ''num_volumes'' ''%d'' (IntArg nv),
                  EndElement]"
      unfolding epiParameters_Inr_iff by auto
    have body: "element_body ''epiParameters'' w =
                 Some [AddBooleanElement ''isEpiRefScanIntegrated'' irs,
                       AddBooleanElement ''MultibandEnabled'' mb,
                       FormatElement ''ExtraFramesTop'' ''%d'' (IntArg top),
                       FormatElement ''AcquiredYRes'' ''%d'' (IntArg yres),
                       FormatElement ''ExtraFramesBottom'' ''%d'' (IntArg bottom),
                       FormatElement ''NumRefViews'' ''%d'' (IntArg ref_views),
                       FormatElement ''num_volumes'' ''%d'' (IntArg nv)]"
      by (simp add: w w0' header_fixed_part_def)
    have three: "ref_views = 3" if "top = 2" and "bottom = 1"
      using sum that by (simp add: int_add_2_1)
    from True isEpi have epi: "IsEpi lxData = Inr True"
      by simp
    show ?thesis
      using epi reads body sint_int_add [OF sum] three by simp
  qed
qed

theorem epiParameters_block_witness:
  "ge_header_to_xml_writer (Some example_archive) example_lxData example_processingControl
     = Inr example_document \<and>
   IsEpi example_lxData = Inr True \<and>
   take 6 (the (element_body ''epiParameters'' example_document)) =
     [AddBooleanElement ''isEpiRefScanIntegrated'' True,
      AddBooleanElement ''MultibandEnabled'' False,
      FormatElement ''ExtraFramesTop'' ''%d'' (IntArg 2),
      FormatElement ''AcquiredYRes'' ''%d'' (IntArg 64),
      FormatElement ''ExtraFramesBottom'' ''%d'' (IntArg 1),
      FormatElement ''NumRefViews'' ''%d'' (IntArg 3)]"
proof -
  have epi: "IsEpi example_lxData = Inr True"
    by (simp add: example_lxData_def)
  from epiParameters_block [OF example_projection] epi
  have "take 6 (the (element_body ''epiParameters'' example_document)) =
     [AddBooleanElement ''isEpiRefScanIntegrated'' True,
      AddBooleanElement ''MultibandEnabled'' False,
      FormatElement ''ExtraFramesTop'' ''%d'' (IntArg 2),
      FormatElement ''AcquiredYRes'' ''%d'' (IntArg 64),
      FormatElement ''ExtraFramesBottom'' ''%d'' (IntArg 1),
      FormatElement ''NumRefViews'' ''%d'' (IntArg 3)]"
    by (auto simp add: example_lxData_def example_procCtrlEPI_def)
  with example_projection epi show ?thesis
    by simp
qed

subsection \<open>Construction\<close>

text \<open>What the constructor leaves in the object it returns.\<close>

lemma GERawConverter_new_InrD:
  assumes "GERawConverter_new orchestra rawFilePath classname = Inr this"
  shows "m_stylesheet this = []"
    and "(classname = ''GenericConverter'' \<and> m_converter this = Some GenericConverter) \<or>
         (classname = ''NIH2dfastConverter'' \<and> m_converter this = Some NIH2dfastConverter) \<or>
         (classname = ''NIHepiConverter'' \<and> m_converter this = Some NIHepiConverter)"
    and "IsArchiveFilePath orchestra rawFilePath \<Longrightarrow>
           m_rawObjectType this = SCAN_ARCHIVE_RAW_TYPE \<and>
           (\<exists>archive. ScanArchive_Create orchestra rawFilePath = Inr archive \<and>
              m_scanArchive this = Some archive \<and> m_pfile this = None)"
    and "\<not> IsArchiveFilePath orchestra rawFilePath \<Longrightarrow>
           m_rawObjectType this = PFILE_RAW_TYPE \<and>
           (\<exists>pf. Pfile_Create orchestra rawFilePath = Inr pf \<and>
              m_pfile this = Some pf \<and> m_scanArchive this = None)"
  using assms unfolding GERawConverter_new_def
  by (auto elim!: bind_outcome_InrE split: if_splits)

lemma GERawConverter_new_unknown:
  assumes "classname \<notin> {''GenericConverter'', ''NIH2dfastConverter'', ''NIHepiConverter''}"
  shows "\<exists>e. GERawConverter_new orchestra rawFilePath classname = Inl e"
proof (cases "GERawConverter_new orchestra rawFilePath classname")
  case (Inl e)
  then show ?thesis by simp
next
  case (Inr this)
  from GERawConverter_new_InrD(2) [OF this] assms show ?thesis
    by auto
qed

lemma bind_outcome_const_Inl:
  "bind_outcome r f = Inr y \<Longrightarrow> (\<And>v. g v = Inl e) \<Longrightarrow> bind_outcome r g = Inl e"
  by (cases r) (simp_all add: bind_outcome_def)

lemma GERawConverter_new_exit:
  assumes "GERawConverter_new orchestra rawFilePath known = Inr this"
    and "classname \<notin> {''GenericConverter'', ''NIH2dfastConverter'', ''NIHepiConverter''}"
  shows "GERawConverter_new orchestra rawFilePath classname = Inl (ProcessExit EXIT_FAILURE)"
  using assms(1) unfolding GERawConverter_new_def
  by (rule bind_outcome_const_Inl) (use assms(2) in simp)

lemma example_construction:
  "GERawConverter_new example_orchestra ''scan.h5'' ''NIHepiConverter''
     = Inr (example_converter\<lparr>m_stylesheet := []\<rparr>)"
  by (simp add: GERawConverter_new_def example_orchestra_def example_archive_def
      example_lxData_def example_converter_def bind_outcome_def)

text \<open>
  C3. The constructor selects the strategy by comparing the class name, character for
  character, with \<^verbatim>\<open>GenericConverter\<close>, \<^verbatim>\<open>NIH2dfastConverter\<close> and \<^verbatim>\<open>NIHepiConverter\<close>. When the
  raw file opens, as an archive or as a P-file, each of the three names is accepted and the
  object returned holds the strategy of that name; and an object that the constructor
  returns was given one of the three names and holds its strategy. For every other class
  name the constructor does not return an object: it ends the process with \<^verbatim>\<open>EXIT_FAILURE\<close>
  whenever the raw file itself could be opened, and a client then runs neither the
  projection nor any transform stage.
\<close>

theorem converter_selection:
  "(GERawConverter_new orchestra rawFilePath classname = Inr this \<longrightarrow>
      (classname = ''GenericConverter'' \<and> m_converter this = Some GenericConverter) \<or>
      (classname = ''NIH2dfastConverter'' \<and> m_converter this = Some NIH2dfastConverter) \<or>
      (classname = ''NIHepiConverter'' \<and> m_converter this = Some NIHepiConverter)) \<and>
   (IsArchiveFilePath orchestra rawFilePath \<and>
    ScanArchive_Create orchestra rawFilePath = Inr archive \<and>
    LoadDownloadData archive = Inr lxData \<and>
    Legacy_ProcessingControl lxData = Inr processingControl \<longrightarrow>
      GERawConverter_new orchestra rawFilePath ''GenericConverter''
        = Inr (archive_converter archive lxData processingControl GenericConverter) \<and>
      GERawConverter_new orchestra rawFilePath ''NIH2dfastConverter''
        = Inr (archive_converter archive lxData processingControl NIH2dfastConverter) \<and>
      GERawConverter_new orchestra rawFilePath ''NIHepiConverter''
        = Inr (archive_converter archive lxData processingControl NIHepiConverter)) \<and>
   (\<not> IsArchiveFilePath orchestra rawFilePath \<and>
    Pfile_Create orchestra rawFilePath = Inr pf \<and>
    Pfile_ProcessingControl pf = Inr pfileControl \<longrightarrow>
      GERawConverter_new orchestra rawFilePath ''GenericConverter''
        = Inr (pfile_converter pf pfileControl GenericConverter) \<and>
      GERawConverter_new orchestra rawFilePath ''NIH2dfastConverter''
        = Inr (pfile_converter pf pfileControl NIH2dfastConverter) \<and>
      GERawConverter_new orchestra rawFilePath ''NIHepiConverter''
        = Inr (pfile_converter pf pfileControl NIHepiConverter)) \<and>
   (classname \<notin> {''GenericConverter'', ''NIH2dfastConverter'', ''NIHepiConverter''} \<longrightarrow>
      (\<exists>e. GERawConverter_new orchestra rawFilePath classname = Inl e) \<and>
      (GERawConverter_new orchestra rawFilePath known = Inr other \<longrightarrow>
         GERawConverter_new orchestra rawFilePath classname = Inl (ProcessExit EXIT_FAILURE)) \<and>
      client_stage_calls orchestra getXML engine fs rawFilePath classname cs = [])"
proof (intro conjI impI)
  assume "GERawConverter_new orchestra rawFilePath classname = Inr this"
  then show "(classname = ''GenericConverter'' \<and> m_converter this = Some GenericConverter) \<or>
      (classname = ''NIH2dfastConverter'' \<and> m_converter this = Some NIH2dfastConverter) \<or>
      (classname = ''NIHepiConverter'' \<and> m_converter this = Some NIHepiConverter)"
    by (rule GERawConverter_new_InrD(2))
next
  assume opened: "IsArchiveFilePath orchestra rawFilePath \<and>
    ScanArchive_Create orchestra rawFilePath = Inr archive \<and>
    LoadDownloadData archive = Inr lxData \<and>
    Legacy_ProcessingControl lxData = Inr processingControl"
  then show "GERawConverter_new orchestra rawFilePath ''GenericConverter''
        = Inr (archive_converter archive lxData processingControl GenericConverter)"
    by (simp add: GERawConverter_new_def bind_outcome_def archive_converter_def)
  from opened show "GERawConverter_new orchestra rawFilePath ''NIH2dfastConverter''
        = Inr (archive_converter archive lxData processingControl NIH2dfastConverter)"
    by (simp add: GERawConverter_new_def bind_outcome_def archive_converter_def)
  from opened show "GERawConverter_new orchestra rawFilePath ''NIHepiConverter''
        = Inr (archive_converter archive lxData processingControl NIHepiConverter)"
    by (simp add: GERawConverter_new_def bind_outcome_def archive_converter_def)
next
  assume opened: "\<not> IsArchiveFilePath orchestra rawFilePath \<and>
    Pfile_Create orchestra rawFilePath = Inr pf \<and>
    Pfile_ProcessingControl pf = Inr pfileControl"
  then show "GERawConverter_new orchestra rawFilePath ''GenericConverter''
        = Inr (pfile_converter pf pfileControl GenericConverter)"
    by (simp add: GERawConverter_new_def bind_outcome_def pfile_converter_def)
  from opened show "GERawConverter_new orchestra rawFilePath ''NIH2dfastConverter''
        = Inr (pfile_converter pf pfileControl NIH2dfastConverter)"
    by (simp add: GERawConverter_new_def bind_outcome_def pfile_converter_def)
  from opened show "GERawConverter_new orchestra rawFilePath ''NIHepiConverter''
        = Inr (pfile_converter pf pfileControl NIHepiConverter)"
    by (simp add: GERawConverter_new_def bind_outcome_def pfile_converter_def)
next
  assume unknown: "classname \<notin> {''GenericConverter'', ''NIH2dfastConverter'', ''NIHepiConverter''}"
  from GERawConverter_new_unknown [OF unknown]
  show fails: "\<exists>e. GERawConverter_new orchestra rawFilePath classname = Inl e" .
  then show "client_stage_calls orchestra getXML engine fs rawFilePath classname cs = []"
    by (auto simp add: client_stage_calls_def)
  assume "GERawConverter_new orchestra rawFilePath known = Inr other"
  then show "GERawConverter_new orchestra rawFilePath classname = Inl (ProcessExit EXIT_FAILURE)"
    using unknown by (rule GERawConverter_new_exit)
qed

theorem converter_selection_witness:
  "GERawConverter_new example_orchestra ''scan.h5'' ''NIHepiConverter''
     = Inr (example_converter\<lparr>m_stylesheet := []\<rparr>) \<and>
   m_converter (example_converter\<lparr>m_stylesheet := []\<rparr>) = Some NIHepiConverter \<and>
   GERawConverter_new example_orchestra ''scan.h5'' ''GenericConverter''
     = Inr (archive_converter example_archive example_lxData example_processingControl
              GenericConverter) \<and>
   GERawConverter_new example_orchestra ''scan.h5'' ''NIH2dfastConverter''
     = Inr (archive_converter example_archive example_lxData example_processingControl
              NIH2dfastConverter) \<and>
   GERawConverter_new example_orchestra ''scan.h5'' ''NIHepiConverter''
     = Inr (archive_converter example_archive example_lxData example_processingControl
              NIHepiConverter) \<and>
   GERawConverter_new example_orchestra ''P12345.7'' ''GenericConverter''
     = Inr (pfile_converter example_pfile example_processingControl GenericConverter) \<and>
   GERawConverter_new example_orchestra ''P12345.7'' ''NIH2dfastConverter''
     = Inr (pfile_converter example_pfile example_processingControl NIH2dfastConverter) \<and>
   GERawConverter_new example_orchestra ''P12345.7'' ''NIHepiConverter''
     = Inr (pfile_converter example_pfile example_processingControl NIHepiConverter) \<and>
   ''NoSuchConverter'' \<notin> {''GenericConverter'', ''NIH2dfastConverter'', ''NIHepiConverter''} \<and>
   GERawConverter_new example_orchestra ''scan.h5'' ''NoSuchConverter''
     = Inl (ProcessExit EXIT_FAILURE) \<and>
   client_stage_calls example_orchestra example_getXML example_engine Map.empty ''scan.h5''
     ''NoSuchConverter'' [UseStylesheetString ''<xsl:stylesheet/>'', GetIsmrmrdXMLHeader] = []"
proof -
  have unknown:
    "''NoSuchConverter'' \<notin> {''GenericConverter'', ''NIH2dfastConverter'', ''NIHepiConverter''}"
    by simp
  have archive_opened: "IsArchiveFilePath example_orchestra ''scan.h5'' \<and>
      ScanArchive_Create example_orchestra ''scan.h5'' = Inr example_archive \<and>
      LoadDownloadData example_archive = Inr example_lxData \<and>
      Legacy_ProcessingControl example_lxData = Inr example_processingControl"
    by (simp add: example_orchestra_def example_archive_def example_lxData_def)
  have pfile_opened: "\<not> IsArchiveFilePath example_orchestra ''P12345.7'' \<and>
      Pfile_Create example_orchestra ''P12345.7'' = Inr example_pfile \<and>
      Pfile_ProcessingControl example_pfile = Inr example_processingControl"
    by (simp add: example_orchestra_def example_pfile_def)
  note returned = converter_selection [where orchestra = example_orchestra
      and rawFilePath = "''scan.h5''" and classname = "''NIHepiConverter''"
      and this = "example_converter\<lparr>m_stylesheet := []\<rparr>",
      THEN conjunct1, THEN mp, OF example_construction]
  note accepted = converter_selection [where orchestra = example_orchestra
      and rawFilePath = "''scan.h5''" and archive = example_archive
      and lxData = example_lxData and processingControl = example_processingControl,
      THEN conjunct2, THEN conjunct1, THEN mp, OF archive_opened]
  note pfile_accepted = converter_selection [where orchestra = example_orchestra
      and rawFilePath = "''P12345.7''" and pf = example_pfile
      and pfileControl = example_processingControl,
      THEN conjunct2, THEN conjunct2, THEN conjunct1, THEN mp, OF pfile_opened]
  note refused = converter_selection [where orchestra = example_orchestra
      and rawFilePath = "''scan.h5''" and classname = "''NoSuchConverter''"
      and known = "''NIHepiConverter''" and other = "example_converter\<lparr>m_stylesheet := []\<rparr>"
      and getXML = example_getXML and engine = example_engine and fs = Map.empty
      and cs = "[UseStylesheetString ''<xsl:stylesheet/>'', GetIsmrmrdXMLHeader]",
      THEN conjunct2, THEN conjunct2, THEN conjunct2, THEN mp, OF unknown]
  have "m_converter (example_converter\<lparr>m_stylesheet := []\<rparr>) = Some NIHepiConverter"
    using returned by simp
  moreover have "GERawConverter_new example_orchestra ''scan.h5'' ''NoSuchConverter''
       = Inl (ProcessExit EXIT_FAILURE)"
    using refused [THEN conjunct2, THEN conjunct1, THEN mp, OF example_construction] .
  moreover have "client_stage_calls example_orchestra example_getXML example_engine Map.empty
       ''scan.h5'' ''NoSuchConverter''
       [UseStylesheetString ''<xsl:stylesheet/>'', GetIsmrmrdXMLHeader] = []"
    using refused [THEN conjunct2, THEN conjunct2] .
  ultimately show ?thesis
    using example_construction unknown
      accepted [THEN conjunct1] accepted [THEN conjunct2, THEN conjunct1]
      accepted [THEN conjunct2, THEN conjunct2]
      pfile_accepted [THEN conjunct1] pfile_accepted [THEN conjunct2, THEN conjunct1]
      pfile_accepted [THEN conjunct2, THEN conjunct2]
    by (intro conjI)
qed

subsection \<open>The archive of a P-file converter\<close>

lemma thrown_empty_iff: "thrown r = {} \<longleftrightarrow> (\<exists>v. r = Inr v)"
  by (cases r) (simp_all add: thrown_def)

lemma thrown_Inr [simp]: "thrown (Inr v) = {}"
  by (simp add: thrown_def)

lemma thrown_Inl [simp]: "thrown (Inl e) = {e}"
  by (simp add: thrown_def)

text \<open>With a null archive, a run that gets to line 333 ends there.\<close>

lemma null_archive_reached:
  assumes "reaches_ArchiveStorage_Create lxData pc"
  shows "ge_header_to_xml_writer None lxData pc = Inl (Undefined NullScanArchive)"
proof -
  from assms obtain is3d cal asset ns nc seriesModule sn studyModule en patientModule
      equipmentModule coil sliceTable imageModule ctrl
    where "Is3DAcquisition pc = Inr is3d" "IsCalibration lxData = Inr cal"
      "AssetCalibration pc = Inr asset" "NumSlices pc = Inr ns" "NumChannels pc = Inr nc"
      "Series_GeneralModule lxData = Inr seriesModule" "SeriesNumber pc = Inr sn"
      "Study_GeneralModule lxData = Inr studyModule" "ExamNumber pc = Inr en"
      "Patient_GeneralModule lxData = Inr patientModule"
      "Equipment_GeneralModule lxData = Inr equipmentModule"
      "CoilConfigUID pc = Inr coil" "SliceTable pc = Inr sliceTable"
      "DicomImage_ImageModule lxData = Inr imageModule" "IsEpi lxData = Inr True"
      "Epi_ProcessingControl lxData = Inr ctrl"
    unfolding reaches_ArchiveStorage_Create_def header_reads_thrown_def Un_empty
      thrown_empty_iff
    by blast
  then show ?thesis
    by (simp add: ge_header_to_xml_writer_def epiParameters_def bind_outcome_def
        ArchiveStorage_Create_ptr_def Let_def)
qed

lemma epi_needs_archive:
  assumes "ge_header_to_xml_writer scanArchive lxData pc = Inr w"
    and "IsEpi lxData = Inr True"
  shows "scanArchive \<noteq> None"
  using ge_header_to_xml_writer_InrD [OF assms(1)] assms(2)
  by (auto simp add: epiParameters_Inr_iff)

lemma example_reaches:
  "reaches_ArchiveStorage_Create example_lxData example_processingControl"
  by (simp add: reaches_ArchiveStorage_Create_def header_reads_thrown_def example_lxData_def
      example_processingControl_def)

lemma example_pfile_construction:
  "GERawConverter_new example_orchestra ''P12345.7'' ''NIHepiConverter''
     = Inr (example_converter\<lparr>m_scanArchive := None, m_pfile := Some example_pfile,
              m_rawObjectType := PFILE_RAW_TYPE, m_stylesheet := []\<rparr>)"
  by (simp add: GERawConverter_new_def example_orchestra_def example_pfile_def
      example_converter_def bind_outcome_def)

text \<open>
  C4. A converter that the constructor made of a path that is not an archive path has the
  P-file kind and a null \<^verbatim>\<open>scanArchive_\<close>. When its header reports EPI, a projection that gets
  as far as line 333 hands that null pointer to \<^verbatim>\<open>ArchiveStorage::Create\<close> and has no defined
  outcome, and no projection of an EPI header returns a document. A converter made of an
  archive path has the ScanArchive kind and a non-null archive: a document of the EPI path
  is returned only by a converter of the ScanArchive kind.
\<close>

theorem pfile_epi_projection:
  assumes "GERawConverter_new orchestra rawFilePath classname = Inr this"
  shows "(IsArchiveFilePath orchestra rawFilePath \<longrightarrow>
            m_rawObjectType this = SCAN_ARCHIVE_RAW_TYPE \<and> m_scanArchive this \<noteq> None) \<and>
         (\<not> IsArchiveFilePath orchestra rawFilePath \<longrightarrow>
            m_rawObjectType this = PFILE_RAW_TYPE \<and> m_scanArchive this = None \<and>
            (reaches_ArchiveStorage_Create (m_lxData this) (m_processingControl this) \<longrightarrow>
               ge_header_to_xml_writer (m_scanArchive this) (m_lxData this)
                 (m_processingControl this) = Inl (Undefined NullScanArchive))) \<and>
         (IsEpi (m_lxData this) = Inr True \<and>
          ge_header_to_xml_writer (m_scanArchive this) (m_lxData this) (m_processingControl this)
            = Inr w \<longrightarrow>
            m_rawObjectType this = SCAN_ARCHIVE_RAW_TYPE)"
proof (intro conjI impI)
  assume "IsArchiveFilePath orchestra rawFilePath"
  from GERawConverter_new_InrD(3) [OF assms this]
  show "m_rawObjectType this = SCAN_ARCHIVE_RAW_TYPE" and "m_scanArchive this \<noteq> None"
    by auto
next
  assume "\<not> IsArchiveFilePath orchestra rawFilePath"
  from GERawConverter_new_InrD(4) [OF assms this]
  show "m_rawObjectType this = PFILE_RAW_TYPE" and null: "m_scanArchive this = None"
    by auto
  assume "reaches_ArchiveStorage_Create (m_lxData this) (m_processingControl this)"
  then show "ge_header_to_xml_writer (m_scanArchive this) (m_lxData this)
      (m_processingControl this) = Inl (Undefined NullScanArchive)"
    unfolding null by (rule null_archive_reached)
next
  assume "IsEpi (m_lxData this) = Inr True \<and>
    ge_header_to_xml_writer (m_scanArchive this) (m_lxData this) (m_processingControl this)
      = Inr w"
  then have "m_scanArchive this \<noteq> None"
    using epi_needs_archive by blast
  with GERawConverter_new_InrD(3,4) [OF assms]
  show "m_rawObjectType this = SCAN_ARCHIVE_RAW_TYPE"
    by (cases "IsArchiveFilePath orchestra rawFilePath") auto
qed

theorem pfile_epi_projection_witness:
  "GERawConverter_new example_orchestra ''P12345.7'' ''NIHepiConverter''
     = Inr (example_converter\<lparr>m_scanArchive := None, m_pfile := Some example_pfile,
              m_rawObjectType := PFILE_RAW_TYPE, m_stylesheet := []\<rparr>) \<and>
   \<not> IsArchiveFilePath example_orchestra ''P12345.7'' \<and>
   reaches_ArchiveStorage_Create example_lxData example_processingControl \<and>
   ge_header_to_xml_writer None example_lxData example_processingControl
     = Inl (Undefined NullScanArchive) \<and>
   GERawConverter_new example_orchestra ''scan.h5'' ''NIHepiConverter''
     = Inr (example_converter\<lparr>m_stylesheet := []\<rparr>) \<and>
   IsArchiveFilePath example_orchestra ''scan.h5'' \<and>
   m_rawObjectType (example_converter\<lparr>m_stylesheet := []\<rparr>) = SCAN_ARCHIVE_RAW_TYPE"
proof -
  have pfile_path: "\<not> IsArchiveFilePath example_orchestra ''P12345.7''"
    by (simp add: example_orchestra_def)
  have archive_path: "IsArchiveFilePath example_orchestra ''scan.h5''"
    by (simp add: example_orchestra_def)
  have "ge_header_to_xml_writer None example_lxData example_processingControl
          = Inl (Undefined NullScanArchive)"
    using pfile_epi_projection [OF example_pfile_construction] pfile_path example_reaches
    by (simp add: example_converter_def)
  moreover have "m_rawObjectType (example_converter\<lparr>m_stylesheet := []\<rparr>)
                   = SCAN_ARCHIVE_RAW_TYPE"
    using pfile_epi_projection [OF example_construction] archive_path
    by simp
  ultimately show ?thesis
    using example_pfile_construction example_construction pfile_path archive_path
      example_reaches
    by (intro conjI)
qed

subsection \<open>A converter without a stylesheet\<close>

text \<open>
  C7. The constructor returns a converter with an empty stylesheet, and that is allowed; but
  while the stored stylesheet is empty, \<^verbatim>\<open>getIsmrmrdXMLHeader\<close> throws the runtime error
  \<^verbatim>\<open>No stylesheet configured.\<close> and has called neither the projection nor any stage of
  the transform.
\<close>

theorem no_stylesheet_configured:
  "(GERawConverter_new orchestra rawFilePath classname = Inr this \<longrightarrow> m_stylesheet this = []) \<and>
   (m_stylesheet this = [] \<longrightarrow>
      getIsmrmrdXMLHeader getXML engine this
        = (Inl (StdException ''No stylesheet configured.''), []))"
  using GERawConverter_new_InrD(1) [of orchestra rawFilePath classname this]
  by (simp add: getIsmrmrdXMLHeader_def)

theorem no_stylesheet_configured_witness:
  "GERawConverter_new example_orchestra ''scan.h5'' ''NIHepiConverter''
     = Inr (example_converter\<lparr>m_stylesheet := []\<rparr>) \<and>
   m_stylesheet (example_converter\<lparr>m_stylesheet := []\<rparr>) = [] \<and>
   getIsmrmrdXMLHeader example_getXML example_engine (example_converter\<lparr>m_stylesheet := []\<rparr>)
     = (Inl (StdException ''No stylesheet configured.''), [])"
proof -
  note inst = no_stylesheet_configured [where orchestra = example_orchestra
      and rawFilePath = "''scan.h5''" and classname = "''NIHepiConverter''"
      and this = "example_converter\<lparr>m_stylesheet := []\<rparr>"
      and getXML = example_getXML and engine = example_engine]
  have empty: "m_stylesheet (example_converter\<lparr>m_stylesheet := []\<rparr>) = []"
    using inst [THEN conjunct1, THEN mp, OF example_construction] .
  from inst [THEN conjunct2, THEN mp, OF empty] example_construction empty
  show ?thesis
    by (intro conjI)
qed

subsection \<open>The life of a converter\<close>

text \<open>A method call changes no member but the stylesheet.\<close>

lemma after_call_frame:
  "\<exists>sheet. after_call fs this c = this\<lparr>m_stylesheet := sheet\<rparr>"
proof (cases c)
  case GetIsmrmrdXMLHeader
  have "this = this\<lparr>m_stylesheet := m_stylesheet this\<rparr>" by simp
  with GetIsmrmrdXMLHeader show ?thesis by (metis after_call.simps(4))
next
  case (GetAcquisitions view_num)
  have "this = this\<lparr>m_stylesheet := m_stylesheet this\<rparr>" by simp
  with GetAcquisitions show ?thesis by (metis after_call.simps(5))
next
  case GetReconConfigName
  have "this = this\<lparr>m_stylesheet := m_stylesheet this\<rparr>" by simp
  with GetReconConfigName show ?thesis by (metis after_call.simps(6))
qed (auto simp add: useStylesheetFilename_def useStylesheetStream_def useStylesheetString_def
      Let_def)

lemma after_calls_frame:
  "\<exists>sheet. after_calls fs this cs = this\<lparr>m_stylesheet := sheet\<rparr>"
proof (induction cs rule: rev_induct)
  case Nil
  have "this = this\<lparr>m_stylesheet := m_stylesheet this\<rparr>" by simp
  then show ?case
    unfolding after_calls_def foldl_Nil by (rule exI)
next
  case (snoc c cs)
  then obtain sheet where "after_calls fs this cs = this\<lparr>m_stylesheet := sheet\<rparr>"
    by blast
  moreover obtain sheet' where
    "after_call fs (after_calls fs this cs) c = (after_calls fs this cs)\<lparr>m_stylesheet := sheet'\<rparr>"
    using after_call_frame by blast
  ultimately have "after_calls fs this (cs @ [c]) = this\<lparr>m_stylesheet := sheet'\<rparr>"
    by (simp add: after_calls_def)
  then show ?case
    by (rule exI)
qed

text \<open>
  C9. The constructor sets the container kind from the path alone: ScanArchive when the SDK
  takes the path for an archive, P-file otherwise, whatever the class name. No sequence of
  method calls changes it, and after any such sequence \<^verbatim>\<open>getAcquisitions(view_num)\<close> is what
  the selected strategy returns for the container of that kind, the archive or the pfile that
  the constructor opened, and the view number.
\<close>

theorem container_kind_fixed:
  assumes "GERawConverter_new orchestra rawFilePath classname = Inr this"
  shows "m_rawObjectType (after_calls fs this cs) =
           (if IsArchiveFilePath orchestra rawFilePath then SCAN_ARCHIVE_RAW_TYPE
            else PFILE_RAW_TYPE) \<and>
         (IsArchiveFilePath orchestra rawFilePath \<longrightarrow>
            (\<exists>archive. ScanArchive_Create orchestra rawFilePath = Inr archive \<and>
               getAcquisitions plugin (after_calls fs this cs) view_num =
                 plugin (m_converter this) (ScanArchivePointer (Some archive)) view_num)) \<and>
         (\<not> IsArchiveFilePath orchestra rawFilePath \<longrightarrow>
            (\<exists>pf. Pfile_Create orchestra rawFilePath = Inr pf \<and>
               getAcquisitions plugin (after_calls fs this cs) view_num =
                 plugin (m_converter this) (PfilePointer (Some pf)) view_num))"
proof -
  obtain sheet where later: "after_calls fs this cs = this\<lparr>m_stylesheet := sheet\<rparr>"
    using after_calls_frame by blast
  show ?thesis
  proof (cases "IsArchiveFilePath orchestra rawFilePath")
    case True
    from GERawConverter_new_InrD(3) [OF assms True] True show ?thesis
      by (auto simp add: later getAcquisitions_def)
  next
    case False
    from GERawConverter_new_InrD(4) [OF assms False] False show ?thesis
      by (auto simp add: later getAcquisitions_def)
  qed
qed

theorem container_kind_fixed_witness:
  "GERawConverter_new example_orchestra ''scan.h5'' ''NIHepiConverter''
     = Inr (example_converter\<lparr>m_stylesheet := []\<rparr>) \<and>
   m_rawObjectType
     (after_calls Map.empty (example_converter\<lparr>m_stylesheet := []\<rparr>)
        [UseStylesheetString ''<xsl:stylesheet/>'', GetIsmrmrdXMLHeader, GetAcquisitions 0])
     = SCAN_ARCHIVE_RAW_TYPE \<and>
   getAcquisitions (\<lambda>converter container view_num. (converter, container, view_num))
     (after_calls Map.empty (example_converter\<lparr>m_stylesheet := []\<rparr>)
        [UseStylesheetString ''<xsl:stylesheet/>'', GetIsmrmrdXMLHeader, GetAcquisitions 0]) 5
     = (Some NIHepiConverter, ScanArchivePointer (Some example_archive), 5) \<and>
   GERawConverter_new example_orchestra ''P12345.7'' ''NIHepiConverter''
     = Inr (example_converter\<lparr>m_scanArchive := None, m_pfile := Some example_pfile,
              m_rawObjectType := PFILE_RAW_TYPE, m_stylesheet := []\<rparr>) \<and>
   getAcquisitions (\<lambda>converter container view_num. (converter, container, view_num))
     (after_calls Map.empty
        (example_converter\<lparr>m_scanArchive := None, m_pfile := Some example_pfile,
           m_rawObjectType := PFILE_RAW_TYPE, m_stylesheet := []\<rparr>)
        [UseStylesheetString ''<xsl:stylesheet/>'', GetAcquisitions 0]) 5
     = (Some NIHepiConverter, PfilePointer (Some example_pfile), 5)"
proof -
  have archive_path: "IsArchiveFilePath example_orchestra ''scan.h5''"
    by (simp add: example_orchestra_def)
  have opened: "ScanArchive_Create example_orchestra ''scan.h5'' = Inr example_archive"
    by (simp add: example_orchestra_def)
  have pfile_path: "\<not> IsArchiveFilePath example_orchestra ''P12345.7''"
    by (simp add: example_orchestra_def)
  have pfile_opened: "Pfile_Create example_orchestra ''P12345.7'' = Inr example_pfile"
    by (simp add: example_orchestra_def)
  note inst = container_kind_fixed [OF example_construction, where fs = Map.empty
      and cs = "[UseStylesheetString ''<xsl:stylesheet/>'', GetIsmrmrdXMLHeader,
                 GetAcquisitions 0]"
      and plugin = "\<lambda>converter container view_num. (converter, container, view_num)"
      and view_num = 5]
  note pfile_inst = container_kind_fixed [OF example_pfile_construction, where fs = Map.empty
      and cs = "[UseStylesheetString ''<xsl:stylesheet/>'', GetAcquisitions 0]"
      and plugin = "\<lambda>converter container view_num. (converter, container, view_num)"
      and view_num = 5]
  have "m_rawObjectType
     (after_calls Map.empty (example_converter\<lparr>m_stylesheet := []\<rparr>)
        [UseStylesheetString ''<xsl:stylesheet/>'', GetIsmrmrdXMLHeader, GetAcquisitions 0])
     = SCAN_ARCHIVE_RAW_TYPE"
    using inst [THEN conjunct1] archive_path by simp
  moreover have "getAcquisitions (\<lambda>converter container view_num. (converter, container, view_num))
     (after_calls Map.empty (example_converter\<lparr>m_stylesheet := []\<rparr>)
        [UseStylesheetString ''<xsl:stylesheet/>'', GetIsmrmrdXMLHeader, GetAcquisitions 0]) 5
     = (Some NIHepiConverter, ScanArchivePointer (Some example_archive), 5)"
    using inst [THEN conjunct2, THEN conjunct1, THEN mp, OF archive_path] opened
    by (auto simp add: example_converter_def)
  moreover have "getAcquisitions (\<lambda>converter container view_num. (converter, container, view_num))
     (after_calls Map.empty
        (example_converter\<lparr>m_scanArchive := None, m_pfile := Some example_pfile,
           m_rawObjectType := PFILE_RAW_TYPE, m_stylesheet := []\<rparr>)
        [UseStylesheetString ''<xsl:stylesheet/>'', GetAcquisitions 0]) 5
     = (Some NIHepiConverter, PfilePointer (Some example_pfile), 5)"
    using pfile_inst [THEN conjunct2, THEN conjunct2, THEN mp, OF pfile_path] pfile_opened
    by (auto simp add: example_converter_def)
  ultimately show ?thesis
    using example_construction example_pfile_construction by (intro conjI)
qed

subsection \<open>Supplying the stylesheet\<close>







subsection \<open>The stages of the transform\<close>

lemma example_header_text:
  "ge_header_to_xml example_getXML (Some example_archive) example_lxData
     example_processingControl
   = Inr ''<Header><Series><Study><Patient><Equipment><Image><epiParameters>''"
  by (simp add: ge_header_to_xml_def example_projection bind_outcome_def example_getXML_def
      example_document_def)

text \<open>
  The claim C6 as it is written fails: the message of the error does not carry the
  diagnostic of the engine. Here the engine rejects a blank stylesheet with
  \<^verbatim>\<open>Document is empty\<close>, and the error thrown has the fixed text of the stage.
\<close>

theorem transform_diagnostic_counterexample:
  "xmlParseMemory example_engine (m_stylesheet (useStylesheetString '' '' example_converter))
     = Inl ''Document is empty'' \<and>
   fst (getIsmrmrdXMLHeader example_getXML example_engine
          (useStylesheetString '' '' example_converter))
     = Inl (StdException
             ''Failed to parse stylesheet from memory: Parsed stylesheet_doc is NULL.'') \<and>
   \<not> mentions ''Document is empty''
       ''Failed to parse stylesheet from memory: Parsed stylesheet_doc is NULL.''"
proof (intro conjI)
  show "xmlParseMemory example_engine (m_stylesheet (useStylesheetString '' '' example_converter))
     = Inl ''Document is empty''"
    by (simp add: example_engine_def useStylesheetString_def)
  show "fst (getIsmrmrdXMLHeader example_getXML example_engine
          (useStylesheetString '' '' example_converter))
     = Inl (StdException
             ''Failed to parse stylesheet from memory: Parsed stylesheet_doc is NULL.'')"
    by (simp add: getIsmrmrdXMLHeader_def useStylesheetString_def example_converter_def
        example_header_text bind_outcome_def example_engine_def)
  show "\<not> mentions ''Document is empty''
       ''Failed to parse stylesheet from memory: Parsed stylesheet_doc is NULL.''"
    by simp
qed

text \<open>
  C6, amended. Once the projection has returned a non-empty text, \<^verbatim>\<open>getIsmrmrdXMLHeader\<close>
  runs the XML parse of the stylesheet, its compilation, the parse of the header text, the
  application and the serialisation, in this order and each at most once. Each of them can
  fail on its own; the first that fails ends the call with a runtime error whose message is a
  fixed text that names that stage, whatever the diagnostic of the engine was, and the later
  stages are not called. When none fails the serialised text is returned.
\<close>

theorem transform_stage_failures:
  assumes "m_stylesheet this \<noteq> []"
    and "ge_header_to_xml getXML (m_scanArchive this) (m_lxData this) (m_processingControl this)
           = Inr h"
    and "h \<noteq> []"
  shows "(xmlParseMemory engine (m_stylesheet this) = Inl d1 \<longrightarrow>
            getIsmrmrdXMLHeader getXML engine this =
              (Inl (StdException
                 ''Failed to parse stylesheet from memory: Parsed stylesheet_doc is NULL.''),
               [Call_ge_header_to_xml, Call_xmlParseMemory_stylesheet])) \<and>
         (xmlParseMemory engine (m_stylesheet this) = Inr stylesheet_doc \<and>
          xsltParseStylesheetDoc engine stylesheet_doc = Inl d2 \<longrightarrow>
            getIsmrmrdXMLHeader getXML engine this =
              (Inl (StdException
                 ''Failed to create shared_ptr for stylesheet: Failed to parse XSLT stylesheet.''),
               [Call_ge_header_to_xml, Call_xmlParseMemory_stylesheet,
                Call_xsltParseStylesheetDoc])) \<and>
         (xmlParseMemory engine (m_stylesheet this) = Inr stylesheet_doc \<and>
          xsltParseStylesheetDoc engine stylesheet_doc = Inr sheet \<and>
          xmlParseMemory engine h = Inl d3 \<longrightarrow>
            getIsmrmrdXMLHeader getXML engine this =
              (Inl (StdException ''Failed to parse P-File XML: Failed to parse GE header XML.''),
               [Call_ge_header_to_xml, Call_xmlParseMemory_stylesheet,
                Call_xsltParseStylesheetDoc, Call_xmlParseMemory_header])) \<and>
         (xmlParseMemory engine (m_stylesheet this) = Inr stylesheet_doc \<and>
          xsltParseStylesheetDoc engine stylesheet_doc = Inr sheet \<and>
          xmlParseMemory engine h = Inr pfile_doc \<and>
          xsltApplyStylesheet engine sheet pfile_doc = Inl d4 \<longrightarrow>
            getIsmrmrdXMLHeader getXML engine this =
              (Inl (StdException
                 ''Error applying stylesheet: Failed to apply XSLT stylesheet to the document.''),
               [Call_ge_header_to_xml, Call_xmlParseMemory_stylesheet,
                Call_xsltParseStylesheetDoc, Call_xmlParseMemory_header,
                Call_xsltApplyStylesheet])) \<and>
         (xmlParseMemory engine (m_stylesheet this) = Inr stylesheet_doc \<and>
          xsltParseStylesheetDoc engine stylesheet_doc = Inr sheet \<and>
          xmlParseMemory engine h = Inr pfile_doc \<and>
          xsltApplyStylesheet engine sheet pfile_doc = Inr result \<and>
          xsltSaveResultToString engine result sheet = Inl d5 \<longrightarrow>
            getIsmrmrdXMLHeader getXML engine this =
              (Inl (StdException
                 ''Error saving result to string: Failed to save transformed XML to string.''),
               [Call_ge_header_to_xml, Call_xmlParseMemory_stylesheet,
                Call_xsltParseStylesheetDoc, Call_xmlParseMemory_header,
                Call_xsltApplyStylesheet, Call_xsltSaveResultToString])) \<and>
         (xmlParseMemory engine (m_stylesheet this) = Inr stylesheet_doc \<and>
          xsltParseStylesheetDoc engine stylesheet_doc = Inr sheet \<and>
          xmlParseMemory engine h = Inr pfile_doc \<and>
          xsltApplyStylesheet engine sheet pfile_doc = Inr result \<and>
          xsltSaveResultToString engine result sheet = Inr ismrmrd_header \<longrightarrow>
            getIsmrmrdXMLHeader getXML engine this =
              (Inr ismrmrd_header,
               [Call_ge_header_to_xml, Call_xmlParseMemory_stylesheet,
                Call_xsltParseStylesheetDoc, Call_xmlParseMemory_header,
                Call_xsltApplyStylesheet, Call_xsltSaveResultToString])) \<and>
         distinct (snd (getIsmrmrdXMLHeader getXML engine this))"
proof -
  have start: "bind_outcome
      (ge_header_to_xml getXML (m_scanArchive this) (m_lxData this) (m_processingControl this))
      (\<lambda>h. if h = [] then Inl (StdException ''Generated GE header is empty.'') else Inr h)
      = Inr h"
    using assms(2,3) by (simp add: bind_outcome_def)
  show ?thesis
    unfolding getIsmrmrdXMLHeader_def start
    using assms(1) by (simp split: sum.splits)
qed

theorem transform_stage_failures_witness:
  "m_stylesheet (useStylesheetString '' '' example_converter) \<noteq> [] \<and>
   ge_header_to_xml example_getXML (Some example_archive) example_lxData
     example_processingControl
     = Inr ''<Header><Series><Study><Patient><Equipment><Image><epiParameters>'' \<and>
   xmlParseMemory example_engine '' '' = Inl ''Document is empty'' \<and>
   getIsmrmrdXMLHeader example_getXML example_engine
     (useStylesheetString '' '' example_converter) =
       (Inl (StdException
          ''Failed to parse stylesheet from memory: Parsed stylesheet_doc is NULL.''),
        [Call_ge_header_to_xml, Call_xmlParseMemory_stylesheet]) \<and>
   getIsmrmrdXMLHeader example_getXML example_engine example_converter =
       (Inr ''<Header><Series><Study><Patient><Equipment><Image><epiParameters>'',
        [Call_ge_header_to_xml, Call_xmlParseMemory_stylesheet, Call_xsltParseStylesheetDoc,
         Call_xmlParseMemory_header, Call_xsltApplyStylesheet, Call_xsltSaveResultToString])"
proof -
  have sheet: "m_stylesheet (useStylesheetString '' '' example_converter) \<noteq> []"
    by (simp add: useStylesheetString_def)
  have header: "ge_header_to_xml example_getXML
      (m_scanArchive (useStylesheetString '' '' example_converter))
      (m_lxData (useStylesheetString '' '' example_converter))
      (m_processingControl (useStylesheetString '' '' example_converter))
     = Inr ''<Header><Series><Study><Patient><Equipment><Image><epiParameters>''"
    using example_header_text by (simp add: useStylesheetString_def example_converter_def)
  have nonempty: "''<Header><Series><Study><Patient><Equipment><Image><epiParameters>'' \<noteq> []"
    by simp
  have rejected: "xmlParseMemory example_engine
      (m_stylesheet (useStylesheetString '' '' example_converter)) = Inl ''Document is empty''"
    by (simp add: example_engine_def useStylesheetString_def)
  have blank: "xmlParseMemory example_engine '' '' = Inl ''Document is empty''"
    by (simp add: example_engine_def)
  have sheet': "m_stylesheet example_converter \<noteq> []"
    by (simp add: example_converter_def)
  have header': "ge_header_to_xml example_getXML (m_scanArchive example_converter)
      (m_lxData example_converter) (m_processingControl example_converter)
     = Inr ''<Header><Series><Study><Patient><Equipment><Image><epiParameters>''"
    using example_header_text by (simp add: example_converter_def)
  have stages:
    "xmlParseMemory example_engine (m_stylesheet example_converter) = Inr ''<xsl:stylesheet/>'' \<and>
     xsltParseStylesheetDoc example_engine ''<xsl:stylesheet/>'' = Inr ''<xsl:stylesheet/>'' \<and>
     xmlParseMemory example_engine
       ''<Header><Series><Study><Patient><Equipment><Image><epiParameters>''
       = Inr ''<Header><Series><Study><Patient><Equipment><Image><epiParameters>'' \<and>
     xsltApplyStylesheet example_engine ''<xsl:stylesheet/>''
       ''<Header><Series><Study><Patient><Equipment><Image><epiParameters>''
       = Inr ''<Header><Series><Study><Patient><Equipment><Image><epiParameters>'' \<and>
     xsltSaveResultToString example_engine
       ''<Header><Series><Study><Patient><Equipment><Image><epiParameters>''
       ''<xsl:stylesheet/>''
       = Inr ''<Header><Series><Study><Patient><Equipment><Image><epiParameters>''"
    by (simp add: example_engine_def example_converter_def)
  note failing = transform_stage_failures [OF sheet header nonempty,
      where engine = example_engine and ?d1.0 = "''Document is empty''",
      THEN conjunct1, THEN mp, OF rejected]
  note passing = transform_stage_failures [OF sheet' header' nonempty,
      where engine = example_engine,
      THEN conjunct2, THEN conjunct2, THEN conjunct2, THEN conjunct2, THEN conjunct2,
      THEN conjunct1, THEN mp, OF stages]
  from failing passing sheet example_header_text blank
  show ?thesis
    by (intro conjI)
qed

subsection \<open>A projection that fails\<close>

lemma int_add_InlD: "int_add a b = Inl e \<Longrightarrow> e = Undefined SignedOverflow"
  by (simp add: int_add_def split: if_splits)

lemma int_div_InlD:
  "int_div a b = Inl e \<Longrightarrow> e = Undefined DivisionByZero \<or> e = Undefined SignedOverflow"
  by (auto simp add: int_div_def split: if_splits)

text \<open>Where the failure of the EPI block comes from.\<close>

lemma epiParameters_InlD:
  assumes "epiParameters scanArchive lxData pc w = Inl e"
    and "IsEpi lxData = Inr True" and "NumSlices pc = Inr ns"
  shows "e \<in> epi_reads_thrown scanArchive lxData \<union>
           {Undefined DivisionByZero, Undefined SignedOverflow}"
  using assms unfolding epiParameters_def Let_def
  apply (elim bind_outcome_InlE)
  apply (simp_all add: epi_reads_thrown_def)
  apply (auto dest: int_add_InlD int_div_InlD)
  done

text \<open>Where the failure of the projection comes from.\<close>

lemma ge_header_to_xml_writer_InlD:
  assumes "ge_header_to_xml_writer scanArchive lxData pc = Inl e"
  shows "e \<in> header_reads_thrown lxData pc \<union> epi_reads_thrown scanArchive lxData \<union>
           {Undefined DivisionByZero, Undefined SignedOverflow}"
  using assms unfolding ge_header_to_xml_writer_def Let_def
  apply (elim bind_outcome_InlE)
  apply (simp_all add: header_reads_thrown_def)
  apply (auto dest: epiParameters_InlD split: if_splits)
  done

text \<open>A projection that returns had no failing read.\<close>

lemma ge_header_to_xml_writer_Inr_no_throw:
  assumes "ge_header_to_xml_writer scanArchive lxData pc = Inr w"
  shows "header_reads_thrown lxData pc = {}" and "epi_reads_thrown scanArchive lxData = {}"
proof -
  from ge_header_to_xml_writer_InrD [OF assms]
  obtain is3d cal asset ns nc sn en coil seriesModule studyModule patientModule equipmentModule
      imageModule isEpi w0
    where reads: "Is3DAcquisition pc = Inr is3d" "IsCalibration lxData = Inr cal"
        "AssetCalibration pc = Inr asset" "NumSlices pc = Inr ns" "NumChannels pc = Inr nc"
        "Series_GeneralModule lxData = Inr seriesModule" "SeriesNumber pc = Inr sn"
        "Study_GeneralModule lxData = Inr studyModule" "ExamNumber pc = Inr en"
        "Patient_GeneralModule lxData = Inr patientModule"
        "Equipment_GeneralModule lxData = Inr equipmentModule"
        "CoilConfigUID pc = Inr coil" "SliceTable pc = Inr ()"
        "DicomImage_ImageModule lxData = Inr imageModule" "IsEpi lxData = Inr isEpi"
      and w0: "if isEpi then epiParameters scanArchive lxData pc
            (header_fixed_part is3d cal asset ns nc sn en coil seriesModule studyModule
               patientModule equipmentModule imageModule) = Inr w0
         else w0 = header_fixed_part is3d cal asset ns nc sn en coil seriesModule studyModule
               patientModule equipmentModule imageModule"
    by blast
  from reads show "header_reads_thrown lxData pc = {}"
    by (simp add: header_reads_thrown_def)
  show "epi_reads_thrown scanArchive lxData = {}"
  proof (cases isEpi)
    case False
    with reads show ?thesis
      by (simp add: epi_reads_thrown_def)
  next
    case True
    with w0 show ?thesis
      unfolding epiParameters_Inr_iff
      by (auto simp add: epi_reads_thrown_def ArchiveStorage_Create_ptr_def)
  qed
qed

lemma ge_header_to_xml_Inl_iff:
  "ge_header_to_xml getXML scanArchive lxData pc = Inl e \<longleftrightarrow>
   ge_header_to_xml_writer scanArchive lxData pc = Inl e"
  by (cases "ge_header_to_xml_writer scanArchive lxData pc")
    (simp_all add: ge_header_to_xml_def bind_outcome_def)

text \<open>
  The claim C5 as it is written fails: the error of the projection is not a \<open>MissingField\<close>
  that names the field. Here the strict read of \<open>NumSlices\<close> fails inside the SDK; the
  projection fails with that very exception, and neither its message nor the message of the
  runtime error that \<^verbatim>\<open>getIsmrmrdXMLHeader\<close> makes of it mentions \<open>NumSlices\<close>.
\<close>

theorem missing_field_counterexample:
  "NumSlices example_bad_processingControl
     = Inl (StdException ''boost::bad_any_cast: failed conversion using boost::any_cast'') \<and>
   ge_header_to_xml example_getXML (Some example_archive) example_lxData
     example_bad_processingControl
     = Inl (StdException ''boost::bad_any_cast: failed conversion using boost::any_cast'') \<and>
   \<not> mentions ''NumSlices'' ''boost::bad_any_cast: failed conversion using boost::any_cast'' \<and>
   fst (getIsmrmrdXMLHeader example_getXML example_engine
          (example_converter\<lparr>m_processingControl := example_bad_processingControl\<rparr>))
     = Inl (StdException (''Failed to generate GE header from lxData and processingControl: '' @
              ''boost::bad_any_cast: failed conversion using boost::any_cast'')) \<and>
   \<not> mentions ''NumSlices''
       (''Failed to generate GE header from lxData and processingControl: '' @
        ''boost::bad_any_cast: failed conversion using boost::any_cast'')"
proof -
  have read: "NumSlices example_bad_processingControl
     = Inl (StdException ''boost::bad_any_cast: failed conversion using boost::any_cast'')"
    by (simp add: example_bad_processingControl_def)
  have projection: "ge_header_to_xml example_getXML (Some example_archive) example_lxData
     example_bad_processingControl
     = Inl (StdException ''boost::bad_any_cast: failed conversion using boost::any_cast'')"
    by (simp add: ge_header_to_xml_def ge_header_to_xml_writer_def bind_outcome_def
        example_bad_processingControl_def example_processingControl_def example_lxData_def)
  have rethrown: "fst (getIsmrmrdXMLHeader example_getXML example_engine
          (example_converter\<lparr>m_processingControl := example_bad_processingControl\<rparr>))
     = Inl (StdException (''Failed to generate GE header from lxData and processingControl: '' @
              ''boost::bad_any_cast: failed conversion using boost::any_cast''))"
    using projection
    by (simp add: getIsmrmrdXMLHeader_def example_converter_def bind_outcome_def
        rethrow_with_def)
  have silent: "\<not> mentions ''NumSlices''
      ''boost::bad_any_cast: failed conversion using boost::any_cast''"
    "\<not> mentions ''NumSlices''
       (''Failed to generate GE header from lxData and processingControl: '' @
        ''boost::bad_any_cast: failed conversion using boost::any_cast'')"
    by simp_all
  from read projection rethrown silent show ?thesis
    by (intro conjI)
qed

text \<open>
  C5, amended. When a read that the projection performs on the raw header fails, the
  projection fails and returns no document, partial or not. The failure with which it ends is
  one that a read threw, passed on as it is (or an undefined step of the EPI arithmetic);
  the projection adds no field name to it. \<^verbatim>\<open>getIsmrmrdXMLHeader\<close> then calls no transform
  stage and throws, for a \<^verbatim>\<open>std::exception\<close>, a runtime error whose message is
  \<^verbatim>\<open>Failed to generate GE header from lxData and processingControl: \<close> followed by the
  message of that exception.
\<close>

theorem projection_fail_fast:
  "(header_reads_thrown lxData pc \<union> epi_reads_thrown scanArchive lxData \<noteq> {} \<longrightarrow>
      (\<exists>e. ge_header_to_xml getXML scanArchive lxData pc = Inl e)) \<and>
   (ge_header_to_xml getXML scanArchive lxData pc = Inl e \<longrightarrow>
      e \<in> header_reads_thrown lxData pc \<union> epi_reads_thrown scanArchive lxData \<union>
          {Undefined DivisionByZero, Undefined SignedOverflow}) \<and>
   (m_stylesheet this \<noteq> [] \<and>
    ge_header_to_xml getXML (m_scanArchive this) (m_lxData this) (m_processingControl this)
      = Inl e \<longrightarrow>
      getIsmrmrdXMLHeader getXML engine this =
        (Inl (rethrow_with
               ''Failed to generate GE header from lxData and processingControl: '' e),
         [Call_ge_header_to_xml]))"
proof (intro conjI impI)
  assume thrown: "header_reads_thrown lxData pc \<union> epi_reads_thrown scanArchive lxData \<noteq> {}"
  show "\<exists>e. ge_header_to_xml getXML scanArchive lxData pc = Inl e"
  proof (cases "ge_header_to_xml_writer scanArchive lxData pc")
    case (Inl e)
    then show ?thesis
      by (simp add: ge_header_to_xml_Inl_iff)
  next
    case (Inr w)
    from ge_header_to_xml_writer_Inr_no_throw [OF this] thrown show ?thesis
      by simp
  qed
next
  assume "ge_header_to_xml getXML scanArchive lxData pc = Inl e"
  then show "e \<in> header_reads_thrown lxData pc \<union> epi_reads_thrown scanArchive lxData \<union>
          {Undefined DivisionByZero, Undefined SignedOverflow}"
    unfolding ge_header_to_xml_Inl_iff by (rule ge_header_to_xml_writer_InlD)
next
  assume "m_stylesheet this \<noteq> [] \<and>
    ge_header_to_xml getXML (m_scanArchive this) (m_lxData this) (m_processingControl this)
      = Inl e"
  then show "getIsmrmrdXMLHeader getXML engine this =
        (Inl (rethrow_with
               ''Failed to generate GE header from lxData and processingControl: '' e),
         [Call_ge_header_to_xml])"
    by (simp add: getIsmrmrdXMLHeader_def bind_outcome_def)
qed

theorem projection_fail_fast_witness:
  "header_reads_thrown example_lxData example_bad_processingControl \<union>
     epi_reads_thrown (Some example_archive) example_lxData \<noteq> {} \<and>
   m_stylesheet (example_converter\<lparr>m_processingControl := example_bad_processingControl\<rparr>)
     \<noteq> [] \<and>
   ge_header_to_xml example_getXML (Some example_archive) example_lxData
     example_bad_processingControl
     = Inl (StdException ''boost::bad_any_cast: failed conversion using boost::any_cast'') \<and>
   StdException ''boost::bad_any_cast: failed conversion using boost::any_cast''
     \<in> header_reads_thrown example_lxData example_bad_processingControl \<and>
   getIsmrmrdXMLHeader example_getXML example_engine
     (example_converter\<lparr>m_processingControl := example_bad_processingControl\<rparr>)
     = (Inl (StdException
          (''Failed to generate GE header from lxData and processingControl: '' @
           ''boost::bad_any_cast: failed conversion using boost::any_cast'')),
        [Call_ge_header_to_xml])"
proof -
  have thrown: "header_reads_thrown example_lxData example_bad_processingControl
      = {StdException ''boost::bad_any_cast: failed conversion using boost::any_cast''}"
    by (simp add: header_reads_thrown_def example_bad_processingControl_def
        example_processingControl_def example_lxData_def)
  have sheet:
    "m_stylesheet (example_converter\<lparr>m_processingControl := example_bad_processingControl\<rparr>)
       \<noteq> []"
    by (simp add: example_converter_def)
  have projection: "ge_header_to_xml example_getXML (Some example_archive) example_lxData
     example_bad_processingControl
     = Inl (StdException ''boost::bad_any_cast: failed conversion using boost::any_cast'')"
    by (simp add: ge_header_to_xml_def ge_header_to_xml_writer_def bind_outcome_def
        example_bad_processingControl_def example_processingControl_def example_lxData_def)
  have projection': "ge_header_to_xml example_getXML
      (m_scanArchive (example_converter\<lparr>m_processingControl := example_bad_processingControl\<rparr>))
      (m_lxData (example_converter\<lparr>m_processingControl := example_bad_processingControl\<rparr>))
      (m_processingControl
         (example_converter\<lparr>m_processingControl := example_bad_processingControl\<rparr>))
     = Inl (StdException ''boost::bad_any_cast: failed conversion using boost::any_cast'')"
    using projection by (simp add: example_converter_def)
  note inst = projection_fail_fast [where getXML = example_getXML and engine = example_engine
      and this = "example_converter\<lparr>m_processingControl := example_bad_processingControl\<rparr>"
      and e = "StdException ''boost::bad_any_cast: failed conversion using boost::any_cast''",
      THEN conjunct2, THEN conjunct2, THEN mp, OF conjI, OF sheet projection']
  have "getIsmrmrdXMLHeader example_getXML example_engine
     (example_converter\<lparr>m_processingControl := example_bad_processingControl\<rparr>)
     = (Inl (StdException
          (''Failed to generate GE header from lxData and processingControl: '' @
           ''boost::bad_any_cast: failed conversion using boost::any_cast'')),
        [Call_ge_header_to_xml])"
    using inst by (simp add: rethrow_with_def)
  moreover have "header_reads_thrown example_lxData example_bad_processingControl \<union>
     epi_reads_thrown (Some example_archive) example_lxData \<noteq> {}"
    by (simp add: thrown)
  moreover have "StdException ''boost::bad_any_cast: failed conversion using boost::any_cast''
     \<in> header_reads_thrown example_lxData example_bad_processingControl"
    by (simp add: thrown)
  ultimately show ?thesis
    using sheet projection by (intro conjI)
qed

subsection \<open>Repeated projection\<close>

text \<open>On headers that hold the same values the projection makes the same writer calls.\<close>

lemma epiParameters_same_values:
  assumes "Epi_ProcessingControl lxData = Epi_ProcessingControl lxData'"
    and "ArchiveStorage_Create_ptr scanArchive = ArchiveStorage_Create_ptr scanArchive'"
    and "NumSlices pc = NumSlices pc'"
  shows "epiParameters scanArchive lxData pc w = epiParameters scanArchive' lxData' pc' w"
  unfolding epiParameters_def assms ..

lemma epi_tail_same_values:
  assumes "IsEpi lxData = IsEpi lxData'"
    and "IsEpi lxData = Inr True \<longrightarrow>
           Epi_ProcessingControl lxData = Epi_ProcessingControl lxData' \<and>
           ArchiveStorage_Create_ptr scanArchive = ArchiveStorage_Create_ptr scanArchive'"
    and "NumSlices pc = NumSlices pc'"
  shows "bind_outcome (IsEpi lxData) (\<lambda>isEpi.
           bind_outcome (if isEpi then epiParameters scanArchive lxData pc w else Inr w) k)
       = bind_outcome (IsEpi lxData') (\<lambda>isEpi.
           bind_outcome (if isEpi then epiParameters scanArchive' lxData' pc' w else Inr w) k)"
proof (cases "IsEpi lxData")
  case (Inl e)
  moreover from Inl assms(1) have "IsEpi lxData' = Inl e"
    by simp
  ultimately show ?thesis
    by (simp only: bind_outcome_def sum.case)
next
  case (Inr isEpi)
  from Inr assms(1) have other: "IsEpi lxData' = Inr isEpi"
    by simp
  show ?thesis
  proof (cases isEpi)
    case True
    with Inr assms(2) have "epiParameters scanArchive lxData pc w
        = epiParameters scanArchive' lxData' pc' w"
      by (intro epiParameters_same_values assms(3)) simp_all
    with Inr other True show ?thesis
      by (simp only: bind_outcome_def sum.case if_True)
  next
    case False
    with Inr other show ?thesis
      by (simp only: bind_outcome_def sum.case if_False)
  qed
qed

lemma ge_header_to_xml_writer_same_values:
  assumes "same_header_values scanArchive lxData pc scanArchive' lxData' pc'"
  shows "ge_header_to_xml_writer scanArchive lxData pc
       = ge_header_to_xml_writer scanArchive' lxData' pc'"
proof -
  from assms have reads:
      "Is3DAcquisition pc = Is3DAcquisition pc'" "IsCalibration lxData = IsCalibration lxData'"
      "AssetCalibration pc = AssetCalibration pc'" "NumSlices pc = NumSlices pc'"
      "NumChannels pc = NumChannels pc'"
      "Series_GeneralModule lxData = Series_GeneralModule lxData'"
      "SeriesNumber pc = SeriesNumber pc'"
      "Study_GeneralModule lxData = Study_GeneralModule lxData'"
      "ExamNumber pc = ExamNumber pc'"
      "Patient_GeneralModule lxData = Patient_GeneralModule lxData'"
      "Equipment_GeneralModule lxData = Equipment_GeneralModule lxData'"
      "CoilConfigUID pc = CoilConfigUID pc'" "SliceTable pc = SliceTable pc'"
      "DicomImage_ImageModule lxData = DicomImage_ImageModule lxData'"
    and epi: "IsEpi lxData = IsEpi lxData'"
      "IsEpi lxData = Inr True \<longrightarrow>
         Epi_ProcessingControl lxData = Epi_ProcessingControl lxData' \<and>
         ArchiveStorage_Create_ptr scanArchive = ArchiveStorage_Create_ptr scanArchive'"
    by (simp_all add: same_header_values_def)
  note tail = epi_tail_same_values [OF epi reads(4)]
  show ?thesis
    unfolding ge_header_to_xml_writer_def Let_def reads tail ..
qed

lemma same_header_values_later:
  "same_header_values (m_scanArchive this) (m_lxData this) (m_processingControl this)
     (m_scanArchive (after_calls fs this cs)) (m_lxData (after_calls fs this cs))
     (m_processingControl (after_calls fs this cs))"
proof -
  obtain sheet where "after_calls fs this cs = this\<lparr>m_stylesheet := sheet\<rparr>"
    using after_calls_frame by blast
  then show ?thesis
    by (simp add: same_header_values_def)
qed

text \<open>
  C10. The text that the projection emits, or the failure with which it ends, is fixed by
  the values that its reads return, in the order of lines 261 to 347: two headers on which
  every read of the projection has the same outcome give the same text, character for
  character, whatever else differs between them. No public method changes what the reads of
  a converter return, so at any later point of its life the header holds the same values as
  at first and the projection, called again, gives the outcome of the first call.
\<close>

theorem projection_deterministic:
  "(same_header_values scanArchive lxData pc scanArchive' lxData' pc' \<longrightarrow>
      ge_header_to_xml getXML scanArchive lxData pc
        = ge_header_to_xml getXML scanArchive' lxData' pc') \<and>
   same_header_values (m_scanArchive this) (m_lxData this) (m_processingControl this)
     (m_scanArchive (after_calls fs this cs)) (m_lxData (after_calls fs this cs))
     (m_processingControl (after_calls fs this cs)) \<and>
   ge_header_to_xml getXML (m_scanArchive (after_calls fs this cs))
     (m_lxData (after_calls fs this cs)) (m_processingControl (after_calls fs this cs))
   = ge_header_to_xml getXML (m_scanArchive this) (m_lxData this) (m_processingControl this)"
proof (intro conjI impI)
  assume "same_header_values scanArchive lxData pc scanArchive' lxData' pc'"
  then show "ge_header_to_xml getXML scanArchive lxData pc
        = ge_header_to_xml getXML scanArchive' lxData' pc'"
    unfolding ge_header_to_xml_def
    by (simp only: ge_header_to_xml_writer_same_values)
next
  show later: "same_header_values (m_scanArchive this) (m_lxData this) (m_processingControl this)
     (m_scanArchive (after_calls fs this cs)) (m_lxData (after_calls fs this cs))
     (m_processingControl (after_calls fs this cs))"
    by (rule same_header_values_later)
  show "ge_header_to_xml getXML (m_scanArchive (after_calls fs this cs))
     (m_lxData (after_calls fs this cs)) (m_processingControl (after_calls fs this cs))
   = ge_header_to_xml getXML (m_scanArchive this) (m_lxData this) (m_processingControl this)"
    unfolding ge_header_to_xml_def
    by (simp only: ge_header_to_xml_writer_same_values [OF later])
qed

theorem projection_deterministic_witness:
  "same_header_values (Some example_archive) example_lxData example_processingControl
     (Some example_other_archive) example_other_lxData example_processingControl \<and>
   example_other_lxData \<noteq> example_lxData \<and> example_other_archive \<noteq> example_archive \<and>
   ge_header_to_xml example_getXML (Some example_other_archive) example_other_lxData
     example_processingControl
     = Inr ''<Header><Series><Study><Patient><Equipment><Image><epiParameters>''"
proof -
  have same: "same_header_values (Some example_archive) example_lxData example_processingControl
     (Some example_other_archive) example_other_lxData example_processingControl"
    by (simp add: same_header_values_def example_other_lxData_def example_other_archive_def
        example_lxData_def example_archive_def ArchiveStorage_Create_ptr_def)
  have differ: "example_other_lxData \<noteq> example_lxData"
    "example_other_archive \<noteq> example_archive"
    by (simp_all add: example_other_lxData_def example_other_archive_def example_lxData_def
        example_archive_def)
  have "ge_header_to_xml example_getXML (Some example_other_archive) example_other_lxData
     example_processingControl
     = Inr ''<Header><Series><Study><Patient><Equipment><Image><epiParameters>''"
    using projection_deterministic [where getXML = example_getXML,
        THEN conjunct1, THEN mp, OF same] example_header_text
    by simp
  with same differ show ?thesis
    by (intro conjI)
qed

end
